theory Spec2Isabelle
  imports Complex_Main "HOL-Library.Sublist" "HOL-Library.Char_ord"
begin

chapter \<open>Schema designer: embedding of the code\<close>

section \<open>Strings\<close>

text \<open>
  JavaScript strings are modelled as \<^typ>\<open>string\<close>. \<open>Array.prototype.join\<close> puts the
  separator between consecutive elements and yields the empty string on the empty array.
\<close>

definition nl :: string where
  "nl = [CHR 0x0A]"

fun join :: "string list \<Rightarrow> string \<Rightarrow> string" where
  "join [] sep = []"
| "join [x] sep = x"
| "join (x # y # ys) sep = x @ sep @ join (y # ys) sep"

text \<open>\<open>String.prototype.includes\<close>: the needle occurs as a contiguous run of the text.\<close>

definition str_includes :: "string \<Rightarrow> string \<Rightarrow> bool" where
  "str_includes text needle = sublist needle text"

section \<open>The client-side designer (class SchemaDesigner)\<close>

text \<open>
  The objects of \<open>currentSchema\<close>. A flag that is absent on a JavaScript object is falsy
  and is \<open>False\<close> here. The field \<open>unique\<close> occurs in the sample data of the class.
  \<open>currentSchema\<close> may also be any imported JSON document, so a relationship object
  may carry the \<open>onDelete\<close> and \<open>onUpdate\<close> properties of the API's relationships;
  they are \<open>None\<close> where the object has no such property, as in the sample data.
\<close>

record column =
  column_name :: string
  column_type :: string
  primaryKey :: bool
  required :: bool
  unique :: bool

record table =
  table_id :: string
  table_name :: string
  position :: "real \<times> real"
  table_columns :: "column list"

record relationship =
  rel_id :: string
  sourceTable :: string
  sourceColumn :: string
  targetTable :: string
  targetColumn :: string
  rel_type :: string
  onDelete :: "string option"
  onUpdate :: "string option"

record schema =
  schema_id :: string
  schema_name :: string
  tables :: "table list"
  relationships :: "relationship list"

text \<open>
  The part of the designer's state that \<open>generateSQL\<close> and \<open>deleteTable\<close> read or write.
  \<open>sqlOutput\<close> is the value of the DOM element of that id.
\<close>

record designer =
  currentSchema :: schema
  zoomLevel :: real
  panOffset :: "real \<times> real"
  sqlOutput :: string

subsection \<open>generateSQL\<close>

text \<open>The callback of \<open>table.columns.map\<close>: one column definition.\<close>

definition columnDefinition :: "column \<Rightarrow> string" where
  "columnDefinition c =
     (let def0 = ''  '' @ column_name c @ '' '' @ column_type c;
          def1 = (if primaryKey c then def0 @ '' PRIMARY KEY'' else def0);
          def2 = (if required c \<and> \<not> primaryKey c then def1 @ '' NOT NULL'' else def1)
      in def2)"

text \<open>The body of the first \<open>forEach\<close>: what one table appends to \<open>sql\<close>.\<close>

definition createTableStatement :: "table \<Rightarrow> string" where
  "createTableStatement t =
     ''CREATE TABLE '' @ table_name t @ '' ('' @ nl
       @ join (map columnDefinition (table_columns t)) ('','' @ nl)
       @ nl @ '');'' @ nl @ nl"

text \<open>The name given to the constraint of a relationship.\<close>

definition constraintName :: "relationship \<Rightarrow> string" where
  "constraintName r = ''fk_'' @ targetTable r @ ''_'' @ sourceTable r"

text \<open>The body of the second \<open>forEach\<close>: what one relationship appends to \<open>sql\<close>.\<close>

definition addConstraintStatement :: "relationship \<Rightarrow> string" where
  "addConstraintStatement r =
     ''ALTER TABLE '' @ targetTable r @ '' ADD CONSTRAINT '' @ constraintName r @ '' ''
       @ ''FOREIGN KEY ('' @ targetColumn r @ '') REFERENCES '' @ sourceTable r
       @ ''('' @ sourceColumn r @ '');'' @ nl @ nl"

text \<open>
  \<open>sql\<close> starts empty, the two loops append to it in array order, and the result is
  stored in the output element.
\<close>

definition generateSQL_text :: "schema \<Rightarrow> string" where
  "generateSQL_text s =
     (let sql0 = [];
          sql1 = foldl (\<lambda>sql t. sql @ createTableStatement t) sql0 (tables s);
          sql2 = foldl (\<lambda>sql r. sql @ addConstraintStatement r) sql1 (relationships s)
      in sql2)"

definition generateSQL :: "designer \<Rightarrow> designer" where
  "generateSQL d = d\<lparr>sqlOutput := generateSQL_text (currentSchema d)\<rparr>"

text \<open>The statements in the order in which the loops append them.\<close>

definition statements :: "schema \<Rightarrow> string list" where
  "statements s =
     map createTableStatement (tables s) @ map addConstraintStatement (relationships s)"

text \<open>
  Names and types as the editor and the API accept them have no blank in them; a column
  is called plain when, in addition, its type does not begin with \<open>KEY\<close>.
\<close>

definition plain_column :: "column \<Rightarrow> bool" where
  "plain_column c \<longleftrightarrow>
     CHR '' '' \<notin> set (column_name c) \<and> CHR '' '' \<notin> set (column_type c) \<and>
     \<not> prefix ''KEY'' (column_type c)"

definition plain_table :: "table \<Rightarrow> bool" where
  "plain_table t \<longleftrightarrow>
     CHR '' '' \<notin> set (table_name t) \<and> (\<forall>c \<in> set (table_columns t). plain_column c)"

subsection \<open>Example schemas\<close>

text \<open>
  One table \<open>users\<close> with an INTEGER primary key \<open>id\<close> and a required, unique
  VARCHAR(255) column \<open>email\<close>.
\<close>

definition usersTable :: table where
  "usersTable =
     \<lparr>table_id = ''users'', table_name = ''users'', position = (100, 100),
      table_columns =
        [\<lparr>column_name = ''id'', column_type = ''INTEGER'', primaryKey = True,
           required = False, unique = False\<rparr>,
         \<lparr>column_name = ''email'', column_type = ''VARCHAR(255)'', primaryKey = False,
           required = True, unique = True\<rparr>]\<rparr>"

definition usersSchema :: schema where
  "usersSchema =
     \<lparr>schema_id = ''s1'', schema_name = ''Users'', tables = [usersTable],
      relationships = []\<rparr>"

definition usersDesigner :: designer where
  "usersDesigner =
     \<lparr>currentSchema = usersSchema, zoomLevel = 1, panOffset = (0, 0), sqlOutput = []\<rparr>"

text \<open>Tables \<open>users\<close> and \<open>orders\<close>, and the relationship of \<open>orders.user_id\<close> to \<open>users.id\<close>.\<close>

definition ordersTable :: table where
  "ordersTable =
     \<lparr>table_id = ''orders'', table_name = ''orders'', position = (700, 100),
      table_columns =
        [\<lparr>column_name = ''id'', column_type = ''INTEGER'', primaryKey = True,
           required = True, unique = False\<rparr>,
         \<lparr>column_name = ''user_id'', column_type = ''INTEGER'', primaryKey = False,
           required = True, unique = False\<rparr>]\<rparr>"

definition userOrders :: relationship where
  "userOrders =
     \<lparr>rel_id = ''user_orders'', sourceTable = ''users'', sourceColumn = ''id'',
      targetTable = ''orders'', targetColumn = ''user_id'', rel_type = ''one-to-many'',
      onDelete = Some ''CASCADE'', onUpdate = Some ''CASCADE''\<rparr>"

definition shopSchema :: schema where
  "shopSchema =
     \<lparr>schema_id = ''s2'', schema_name = ''Shop'', tables = [usersTable, ordersTable],
      relationships = [userOrders]\<rparr>"

definition shopDesigner :: designer where
  "shopDesigner =
     \<lparr>currentSchema = shopSchema, zoomLevel = 1, panOffset = (0, 0), sqlOutput = []\<rparr>"

text \<open>
  A second relationship between the same two tables: \<open>orders.approved_by\<close> also refers
  to \<open>users.id\<close>.
\<close>

definition orderApprover :: relationship where
  "orderApprover =
     \<lparr>rel_id = ''order_approver'', sourceTable = ''users'', sourceColumn = ''id'',
      targetTable = ''orders'', targetColumn = ''approved_by'', rel_type = ''one-to-many'',
      onDelete = None, onUpdate = None\<rparr>"

definition twoLinksSchema :: schema where
  "twoLinksSchema = shopSchema\<lparr>relationships := [userOrders, orderApprover]\<rparr>"

text \<open>Tables \<open>A\<close> and \<open>B\<close> that refer to each other: the relationships form a cycle.\<close>

definition tableA :: table where
  "tableA =
     \<lparr>table_id = ''A'', table_name = ''A'', position = (0, 0),
      table_columns =
        [\<lparr>column_name = ''id'', column_type = ''INTEGER'', primaryKey = True,
           required = True, unique = False\<rparr>,
         \<lparr>column_name = ''b_id'', column_type = ''INTEGER'', primaryKey = False,
           required = False, unique = False\<rparr>]\<rparr>"

definition tableB :: table where
  "tableB =
     \<lparr>table_id = ''B'', table_name = ''B'', position = (300, 0),
      table_columns =
        [\<lparr>column_name = ''id'', column_type = ''INTEGER'', primaryKey = True,
           required = True, unique = False\<rparr>,
         \<lparr>column_name = ''a_id'', column_type = ''INTEGER'', primaryKey = False,
           required = False, unique = False\<rparr>]\<rparr>"

definition relAB :: relationship where
  "relAB =
     \<lparr>rel_id = ''a_b'', sourceTable = ''A'', sourceColumn = ''id'',
      targetTable = ''B'', targetColumn = ''a_id'', rel_type = ''one-to-many'',
      onDelete = None, onUpdate = None\<rparr>"

definition relBA :: relationship where
  "relBA =
     \<lparr>rel_id = ''b_a'', sourceTable = ''B'', sourceColumn = ''id'',
      targetTable = ''A'', targetColumn = ''b_id'', rel_type = ''one-to-many'',
      onDelete = None, onUpdate = None\<rparr>"

definition cycleSchema :: schema where
  "cycleSchema =
     \<lparr>schema_id = ''s3'', schema_name = ''Cycle'', tables = [tableA, tableB],
      relationships = [relAB, relBA]\<rparr>"

definition cycleDesigner :: designer where
  "cycleDesigner =
     \<lparr>currentSchema = cycleSchema, zoomLevel = 1, panOffset = (0, 0),
      sqlOutput = ''stale''\<rparr>"


subsection \<open>What generateSQL reads\<close>

text \<open>
  The properties of the schema objects that \<open>generateSQL\<close> reads: names, types and the
  two flags of columns, and the four names of a relationship. It reads no id (made from
  \<open>Date.now()\<close> by \<open>addTable\<close>) and no position (made from \<open>Math.random()\<close>).
\<close>

definition column_view :: "column \<Rightarrow> string \<times> string \<times> bool \<times> bool" where
  "column_view c = (column_name c, column_type c, primaryKey c, required c)"

definition table_view :: "table \<Rightarrow> string \<times> (string \<times> string \<times> bool \<times> bool) list" where
  "table_view t = (table_name t, map column_view (table_columns t))"

definition relationship_view :: "relationship \<Rightarrow> string \<times> string \<times> string \<times> string" where
  "relationship_view r = (sourceTable r, sourceColumn r, targetTable r, targetColumn r)"

definition schema_view ::
  "schema \<Rightarrow> (string \<times> (string \<times> string \<times> bool \<times> bool) list) list
     \<times> (string \<times> string \<times> string \<times> string) list" where
  "schema_view s = (map table_view (tables s), map relationship_view (relationships s))"

text \<open>
  The cyclic schema once more, as the editor would have built it: other ids and
  positions, another zoom level and an older text in the output element.
\<close>

definition cycleDesigner2 :: designer where
  "cycleDesigner2 =
     \<lparr>currentSchema =
        \<lparr>schema_id = ''new-schema'', schema_name = ''New Schema'',
         tables = [tableA\<lparr>table_id := ''table_1700000000000'', position := (231.5, 170)\<rparr>,
                   tableB\<lparr>table_id := ''table_1700000000777'', position := (404, 333.25)\<rparr>],
         relationships = [relAB\<lparr>rel_id := ''r1'', rel_type := ''one-to-one''\<rparr>,
                          relBA\<lparr>rel_id := ''r2'', onDelete := Some ''CASCADE''\<rparr>]\<rparr>,
      zoomLevel = 1.2, panOffset = (10, 20), sqlOutput = ''previous output''\<rparr>"

section \<open>The SQL route of the server (GET /:schemaId/sql)\<close>

text \<open>
  The rows that the four queries of the handler return. A nullable column is an
  \<open>option\<close>; SQLite stores a BOOLEAN as an integer.
\<close>

record schema_row =
  s_id :: string
  s_name :: string

record table_row =
  t_id :: string
  t_schema_id :: string
  t_name :: string
  t_description :: "string option"

record column_row =
  c_id :: string
  c_table_id :: string
  c_name :: string
  data_type :: string
  c_length :: "int option"
  precision_val :: "int option"
  scale_val :: "int option"
  is_primary_key :: "int option"
  is_foreign_key :: "int option"
  is_unique :: "int option"
  is_required :: "int option"
  is_auto_increment :: "int option"
  default_value :: "string option"
  c_description :: "string option"
  order_index :: int

record relationship_row =
  r_id :: string
  r_schema_id :: string
  source_table_id :: string
  source_column_id :: string
  target_table_id :: string
  target_column_id :: string
  relationship_type :: string
  on_delete :: "string option"
  on_update :: "string option"
  r_name :: "string option"

text \<open>A row of the relationships query: the relationship joined with the four names.\<close>

record relationship_join_row = relationship_row +
  source_table_name :: string
  source_column_name :: string
  target_table_name :: string
  target_column_name :: string

text \<open>The objects handed to the SQL generator.\<close>

record column_data =
  cd_name :: string
  dataType :: string
  cd_length :: "int option"
  cd_precision :: "int option"
  cd_scale :: "int option"
  isPrimaryKey :: bool
  isForeignKey :: bool
  isUnique :: bool
  isRequired :: bool
  isAutoIncrement :: bool
  defaultValue :: "string option"
  cd_description :: "string option"

record table_data =
  td_name :: string
  td_description :: "string option"
  td_columns :: "column_data list"

record relationship_data =
  rd_name :: "string option"
  sourceTableName :: string
  sourceColumnName :: string
  targetTableName :: string
  targetColumnName :: string
  rd_onDelete :: "string option"
  rd_onUpdate :: "string option"

record generator_options =
  includeDropStatements :: bool
  includeComments :: bool
  includeIndexes :: bool
  includeConstraints :: bool

text \<open>\<open>Boolean(v)\<close> of a stored flag: NULL and 0 are false.\<close>

definition Boolean :: "int option \<Rightarrow> bool" where
  "Boolean v = (case v of None \<Rightarrow> False | Some n \<Rightarrow> n \<noteq> 0)"

definition toColumnData :: "column_row \<Rightarrow> column_data" where
  "toColumnData column =
     \<lparr>cd_name = c_name column, dataType = data_type column, cd_length = c_length column,
      cd_precision = precision_val column, cd_scale = scale_val column,
      isPrimaryKey = Boolean (is_primary_key column),
      isForeignKey = Boolean (is_foreign_key column),
      isUnique = Boolean (is_unique column),
      isRequired = Boolean (is_required column),
      isAutoIncrement = Boolean (is_auto_increment column),
      defaultValue = default_value column, cd_description = c_description column\<rparr>"

text \<open>\<open>tableColumnsMap\<close>: the columns grouped by table id, in the order of the rows.\<close>

definition tableColumnsMap :: "column_row list \<Rightarrow> (string \<rightharpoonup> column_data list)" where
  "tableColumnsMap columnRows =
     foldl (\<lambda>m column.
              m(c_table_id column \<mapsto>
                  (case m (c_table_id column) of None \<Rightarrow> [] | Some cs \<Rightarrow> cs)
                    @ [toColumnData column]))
       Map.empty columnRows"

definition tablesData :: "table_row list \<Rightarrow> column_row list \<Rightarrow> table_data list" where
  "tablesData tableRows columnRows =
     map (\<lambda>table.
            \<lparr>td_name = t_name table, td_description = t_description table,
             td_columns =
               (case tableColumnsMap columnRows (t_id table) of None \<Rightarrow> [] | Some cs \<Rightarrow> cs)\<rparr>)
       tableRows"

definition relationshipsData :: "relationship_join_row list \<Rightarrow> relationship_data list" where
  "relationshipsData relationshipRows =
     map (\<lambda>rel.
            \<lparr>rd_name = r_name rel,
             sourceTableName = source_table_name rel,
             sourceColumnName = source_column_name rel,
             targetTableName = target_table_name rel,
             targetColumnName = target_column_name rel,
             rd_onDelete = on_delete rel,
             rd_onUpdate = on_update rel\<rparr>)
       relationshipRows"

text \<open>The query string as the handler sees it: each parameter is a string or absent.\<close>

record sql_query =
  q_dialect :: "string option"
  q_includeDropStatements :: "string option"
  q_includeComments :: "string option"

text \<open>
  The dialect with its default. The two flags are compared with the string \<open>'true'\<close>:
  an absent parameter takes its boolean default, which is not that string.
\<close>

definition routeDialect :: "sql_query \<Rightarrow> string" where
  "routeDialect q = (case q_dialect q of None \<Rightarrow> ''mysql'' | Some d \<Rightarrow> d)"

definition routeOptions :: "sql_query \<Rightarrow> generator_options" where
  "routeOptions q =
     \<lparr>includeDropStatements = (q_includeDropStatements q = Some ''true''),
      includeComments = (q_includeComments q = Some ''true''),
      includeIndexes = True,
      includeConstraints = True\<rparr>"

text \<open>
  The class \<open>SQLGenerator\<close> (\<open>utils/sqlGenerator\<close>) is not among the sources. The handler
  takes it as the parameter \<open>gen\<close>: constructing the generator for a dialect and calling
  \<open>generateSchema\<close> either throws (\<open>Inl\<close>) or returns the SQL (\<open>Inr\<close>). The handler sends the
  SQL with the dialect and the schema's name, and turns every exception into the same
  500 response. Timestamps are left out of the responses.
\<close>

datatype 'sql sql_response =
    SqlSuccess 'sql string string
  | SqlFailure nat string string

type_synonym 'sql generator =
  "string \<Rightarrow> table_data list \<Rightarrow> relationship_data list \<Rightarrow> generator_options \<Rightarrow> string + 'sql"

definition sqlRoute ::
  "'sql generator \<Rightarrow> schema_row option \<Rightarrow> table_row list \<Rightarrow> column_row list
     \<Rightarrow> relationship_join_row list \<Rightarrow> sql_query \<Rightarrow> 'sql sql_response" where
  "sqlRoute gen schemaRow tableRows columnRows relationshipRows q =
     (case gen (routeDialect q) (tablesData tableRows columnRows)
             (relationshipsData relationshipRows)
             (routeOptions q) of
        Inl error \<Rightarrow> SqlFailure 500 ''INTERNAL_SERVER_ERROR'' ''Failed to generate SQL''
      | Inr sql \<Rightarrow>
          (case schemaRow of
             None \<Rightarrow> SqlFailure 500 ''INTERNAL_SERVER_ERROR'' ''Failed to generate SQL''
           | Some row \<Rightarrow> SqlSuccess sql (routeDialect q) (s_name row)))"

section \<open>The API client (class APIClient)\<close>

record sql_options =
  opt_dialect :: "string option"
  opt_includeDropStatements :: "bool option"
  opt_includeComments :: "bool option"

definition allowedDialects :: "string list" where
  "allowedDialects = [''mysql'', ''postgresql'', ''sqlite'', ''mssql'']"

text \<open>
  \<open>validateSQLOptions\<close>: a dialect is kept only when it is a non-empty string of the list;
  any other dialect is dropped without an error.
\<close>

definition validateSQLOptions :: "sql_options \<Rightarrow> sql_options" where
  "validateSQLOptions options =
     \<lparr>opt_dialect =
        (case opt_dialect options of
           None \<Rightarrow> None
         | Some d \<Rightarrow> if d \<noteq> [] \<and> d \<in> set allowedDialects then Some d else None),
      opt_includeDropStatements = opt_includeDropStatements options,
      opt_includeComments = opt_includeComments options\<rparr>"

text \<open>
  \<open>encodeURIComponent\<close> keeps the unreserved characters and writes every other byte as
  \<open>%XX\<close>.
\<close>

definition unreserved :: "char \<Rightarrow> bool" where
  "unreserved c \<longleftrightarrow>
     (CHR ''A'' \<le> c \<and> c \<le> CHR ''Z'') \<or> (CHR ''a'' \<le> c \<and> c \<le> CHR ''z'') \<or>
     (CHR ''0'' \<le> c \<and> c \<le> CHR ''9'') \<or> c \<in> set ''-_.!~*()'' \<or> c = CHR 0x27"

definition hexDigit :: "nat \<Rightarrow> char" where
  "hexDigit n = ''0123456789ABCDEF'' ! (n mod 16)"

definition encodeURIComponent :: "string \<Rightarrow> string" where
  "encodeURIComponent s =
     concat (map (\<lambda>c. if unreserved c then [c]
                       else [CHR ''%'', hexDigit (of_char c div 16), hexDigit (of_char c)]) s)"

text \<open>
  \<open>sanitizeParams\<close> encodes the string parameters and leaves the others; the transport
  then delivers a string as it is and a boolean as \<open>true\<close> or \<open>false\<close>.
\<close>

definition sanitizeParams :: "sql_options \<Rightarrow> sql_options" where
  "sanitizeParams params = params\<lparr>opt_dialect := map_option encodeURIComponent (opt_dialect params)\<rparr>"

definition booleanParam :: "bool \<Rightarrow> string" where
  "booleanParam b = (if b then ''true'' else ''false'')"

definition toQuery :: "sql_options \<Rightarrow> sql_query" where
  "toQuery params =
     \<lparr>q_dialect = opt_dialect params,
      q_includeDropStatements = map_option booleanParam (opt_includeDropStatements params),
      q_includeComments = map_option booleanParam (opt_includeComments params)\<rparr>"

text \<open>\<open>APIClient.generateSQL\<close> for a well-formed schema id, answered by the route.\<close>

definition requestQuery :: "sql_options \<Rightarrow> sql_query" where
  "requestQuery options = toQuery (sanitizeParams (validateSQLOptions options))"

definition apiGenerateSQL ::
  "'sql generator \<Rightarrow> schema_row option \<Rightarrow> table_row list \<Rightarrow> column_row list
     \<Rightarrow> relationship_join_row list \<Rightarrow> sql_options \<Rightarrow> 'sql sql_response" where
  "apiGenerateSQL gen schemaRow tableRows columnRows relationshipRows options =
     sqlRoute gen schemaRow tableRows columnRows relationshipRows (requestQuery options)"

section \<open>The emitter of the specification\<close>

text \<open>
  Modelled from the spec: the class \<open>SQLGenerator\<close> that the SQL route calls
  (\<open>utils/sqlGenerator\<close>) is missing from the sources, so the emission phases follow
  section 4.5 of the specification. An unknown dialect identifier fails before any phase
  runs. Otherwise the DROP phase (if \<open>includeDropStatements\<close>) comes first: the drop of every
  constraint created in the CONSTRAINT phase, then the drop of every table; then the
  CREATE TABLE phase, one statement per table; the CONSTRAINT phase (if
  \<open>includeConstraints\<close>), one statement per relationship; and the INDEX phase (if
  \<open>includeIndexes\<close>), one statement per referencing column that no PRIMARY KEY or UNIQUE
  constraint covers. The specification leaves the order of the table drops open (the
  reverse of some topological order, or any stable order for a cyclic schema): it is the
  parameter \<open>dropOrder\<close>. Statements are kept as values, since the specification fixes no
  text for the DROP statements. The validator of the specification is not part of this
  model.
\<close>

datatype ddl_statement =
    DropConstraint relationship_data
  | DropTable table_data
  | CreateTable table_data
  | AddConstraint relationship_data
  | CreateIndex string string

datatype emit_error = UnsupportedDialect string

definition knownDialects :: "string list" where
  "knownDialects = [''mysql'', ''postgresql'', ''sqlite'', ''mssql'']"

definition constraintPhase :: "generator_options \<Rightarrow> relationship_data list \<Rightarrow> ddl_statement list" where
  "constraintPhase opts rels = (if includeConstraints opts then map AddConstraint rels else [])"

definition createPhase :: "table_data list \<Rightarrow> ddl_statement list" where
  "createPhase tbls = map CreateTable tbls"

definition coveredColumn :: "table_data list \<Rightarrow> string \<Rightarrow> string \<Rightarrow> bool" where
  "coveredColumn tbls tname cname =
     list_ex (\<lambda>t. td_name t = tname \<and>
                list_ex (\<lambda>c. cd_name c = cname \<and> (isPrimaryKey c \<or> isUnique c)) (td_columns t))
       tbls"

definition indexPhase ::
  "generator_options \<Rightarrow> table_data list \<Rightarrow> relationship_data list \<Rightarrow> ddl_statement list" where
  "indexPhase opts tbls rels =
     (if includeIndexes opts
      then map (\<lambda>r. CreateIndex (targetTableName r) (targetColumnName r))
             (filter (\<lambda>r. \<not> coveredColumn tbls (targetTableName r) (targetColumnName r)) rels)
      else [])"

definition constraintDrops :: "generator_options \<Rightarrow> relationship_data list \<Rightarrow> ddl_statement list" where
  "constraintDrops opts rels = (if includeConstraints opts then map DropConstraint rels else [])"

definition tableDrops ::
  "(table_data list \<Rightarrow> relationship_data list \<Rightarrow> table_data list)
     \<Rightarrow> table_data list \<Rightarrow> relationship_data list \<Rightarrow> ddl_statement list" where
  "tableDrops dropOrder tbls rels = map DropTable (dropOrder tbls rels)"

definition dropPhase ::
  "(table_data list \<Rightarrow> relationship_data list \<Rightarrow> table_data list)
     \<Rightarrow> generator_options \<Rightarrow> table_data list \<Rightarrow> relationship_data list \<Rightarrow> ddl_statement list" where
  "dropPhase dropOrder opts tbls rels =
     (if includeDropStatements opts
      then constraintDrops opts rels @ tableDrops dropOrder tbls rels
      else [])"

definition emit ::
  "(table_data list \<Rightarrow> relationship_data list \<Rightarrow> table_data list)
     \<Rightarrow> string \<Rightarrow> table_data list \<Rightarrow> relationship_data list \<Rightarrow> generator_options
     \<Rightarrow> emit_error + ddl_statement list" where
  "emit dropOrder dialect tbls rels opts =
     (if dialect \<notin> set knownDialects then Inl (UnsupportedDialect dialect)
      else Inr (dropPhase dropOrder opts tbls rels
                @ createPhase tbls
                @ constraintPhase opts rels
                @ indexPhase opts tbls rels))"

fun isConstraintDrop :: "ddl_statement \<Rightarrow> bool" where
  "isConstraintDrop (DropConstraint r) = True"
| "isConstraintDrop s = False"

fun isTableDrop :: "ddl_statement \<Rightarrow> bool" where
  "isTableDrop (DropTable t) = True"
| "isTableDrop s = False"

definition isDrop :: "ddl_statement \<Rightarrow> bool" where
  "isDrop s \<longleftrightarrow> isConstraintDrop s \<or> isTableDrop s"

text \<open>
  The emitter in the place of the missing class: an error of the emitter is the exception
  that the handler catches.
\<close>

definition specGenerator ::
  "(table_data list \<Rightarrow> relationship_data list \<Rightarrow> table_data list)
     \<Rightarrow> ddl_statement list generator" where
  "specGenerator dropOrder dialect tbls rels opts =
     (case emit dropOrder dialect tbls rels opts of
        Inl (UnsupportedDialect d) \<Rightarrow> Inl (''Unsupported dialect: '' @ d)
      | Inr stmts \<Rightarrow> Inr stmts)"

text \<open>A drop order for the examples: the tables in reverse.\<close>

definition reverseOrder :: "table_data list \<Rightarrow> relationship_data list \<Rightarrow> table_data list" where
  "reverseOrder tbls rels = rev tbls"

subsection \<open>Example rows\<close>

definition shopSchemaRow :: schema_row where
  "shopSchemaRow = \<lparr>s_id = ''5f0c'', s_name = ''Shop''\<rparr>"

definition shopTableRows :: "table_row list" where
  "shopTableRows =
     [\<lparr>t_id = ''t-orders'', t_schema_id = ''5f0c'', t_name = ''orders'', t_description = None\<rparr>,
      \<lparr>t_id = ''t-users'', t_schema_id = ''5f0c'', t_name = ''users'', t_description = None\<rparr>]"

definition idColumnRow :: "string \<Rightarrow> string \<Rightarrow> column_row" where
  "idColumnRow cid tid =
     \<lparr>c_id = cid, c_table_id = tid, c_name = ''id'', data_type = ''INTEGER'',
      c_length = None, precision_val = None, scale_val = None,
      is_primary_key = Some 1, is_foreign_key = Some 0, is_unique = Some 0,
      is_required = Some 1, is_auto_increment = Some 1, default_value = None,
      c_description = None, order_index = 0\<rparr>"

definition shopColumnRows :: "column_row list" where
  "shopColumnRows =
     [idColumnRow ''c-orders-id'' ''t-orders'',
      (idColumnRow ''c-orders-user'' ''t-orders'')
        \<lparr>c_name := ''user_id'', is_primary_key := Some 0, is_auto_increment := Some 0,
         order_index := 1\<rparr>,
      idColumnRow ''c-users-id'' ''t-users'']"

definition shopRelationshipRows :: "relationship_join_row list" where
  "shopRelationshipRows =
     [\<lparr>r_id = ''r-1'', r_schema_id = ''5f0c'',
       source_table_id = ''t-users'', source_column_id = ''c-users-id'',
       target_table_id = ''t-orders'', target_column_id = ''c-orders-user'',
       relationship_type = ''one-to-many'',
       on_delete = Some ''CASCADE'', on_update = Some ''CASCADE'', r_name = None,
       source_table_name = ''users'', source_column_name = ''id'',
       target_table_name = ''orders'', target_column_name = ''user_id''\<rparr>]"

definition oracleOptions :: sql_options where
  "oracleOptions =
     \<lparr>opt_dialect = Some ''oracle'', opt_includeDropStatements = Some True,
      opt_includeComments = None\<rparr>"

section \<open>The validation middleware\<close>

text \<open>
  \<open>validate(schemaName, source)\<close> looks the Joi schema up, validates the query or the body
  with \<open>abortEarly: false\<close>, and either answers 400 with one entry per error detail or
  replaces the data by the validated value and calls \<open>next\<close>. Joi is a library: its
  \<open>validate\<close> is the parameter \<open>joi\<close>, which returns the error details (none when the data
  is valid) and the value. The table of schemas is the parameter \<open>schemas\<close>.
\<close>

record validate_options =
  abortEarly :: bool
  stripUnknown :: bool
  convert :: bool

record 'v joi_detail =
  path :: "string list"
  message :: string
  context_value :: "'v option"

record 'v validation_error =
  field :: string
  ve_message :: string
  ve_value :: "'v option"

record 'd request =
  query :: 'd
  body :: 'd

datatype ('d, 'v) middleware_result =
    Next "'d request"
  | Respond nat string string "'v validation_error list"

definition validationErrors :: "'v joi_detail list \<Rightarrow> 'v validation_error list" where
  "validationErrors details =
     map (\<lambda>detail. \<lparr>field = join (path detail) ''.'', ve_message = message detail,
                     ve_value = context_value detail\<rparr>) details"

definition validate ::
  "('s \<Rightarrow> 'd \<Rightarrow> validate_options \<Rightarrow> 'v joi_detail list \<times> 'd) \<Rightarrow> (string \<rightharpoonup> 's)
     \<Rightarrow> string \<Rightarrow> string \<Rightarrow> 'd request \<Rightarrow> ('d, 'v) middleware_result" where
  "validate joi schemas schemaName source req =
     (case schemas schemaName of
        None \<Rightarrow>
          Respond 500 ''VALIDATION_SCHEMA_NOT_FOUND''
            (''Validation schema '' @ [CHR 0x27] @ schemaName @ [CHR 0x27] @ '' not found'') []
      | Some schema \<Rightarrow>
          (let data = (if source = ''query'' then query req else body req);
               (details, val) =
                 joi schema data \<lparr>abortEarly = False, stripUnknown = True, convert = True\<rparr>
           in if details \<noteq> []
              then Respond 400 ''VALIDATION_ERROR'' ''Validation failed'' (validationErrors details)
              else Next (if source = ''query'' then req\<lparr>query := val\<rparr>
                         else req\<lparr>body := val\<rparr>)))"

subsection \<open>The validator\<close>

text \<open>
  Modelled from the spec: the validator that the middleware calls, \<open>schema.validate\<close> of
  the library Joi, is missing from the sources. It is modelled as the specification
  describes validation (section 4.3): it does not fail fast, it collects every issue in
  one pass and returns them all. The option \<open>abortEarly\<close> is as the documentation of Joi
  describes it: when it is set, validation stops at the first error, otherwise all the
  errors found are returned. A schema is the list of its rules, in the order in which
  they are applied; a rule gives the error details that it finds in the data, and the
  defects of the data are the details of all the rules. The value returned is the data
  with the defaults of the schema filled in.
\<close>

datatype joi_value = StringValue string | NumberValue int

record ('d, 'v) joi_schema =
  rules :: "('d \<Rightarrow> 'v joi_detail list) list"
  defaults :: "'d \<Rightarrow> 'd"

definition defects :: "('d, 'v) joi_schema \<Rightarrow> 'd \<Rightarrow> 'v joi_detail list" where
  "defects sch data = concat (map (\<lambda>rule. rule data) (rules sch))"

definition joiValidate ::
  "('d, 'v) joi_schema \<Rightarrow> 'd \<Rightarrow> validate_options \<Rightarrow> 'v joi_detail list \<times> 'd" where
  "joiValidate sch data opts =
     (if abortEarly opts then take 1 (defects sch data) else defects sch data,
      defaults sch data)"

subsection \<open>The rules of Joi that the schema of a table uses\<close>

text \<open>
  The rules are written out from the documentation of Joi (version 17), with its
  messages. The label of a detail is its path, joined by dots, in double quotes. A
  value of \<open>Joi.string()\<close> that is absent is accepted unless the key is \<open>required()\<close>; the
  empty string is refused (\<open>string.empty\<close>) unless \<open>allow('')\<close> admits it; on any other
  string all the rules that follow are tried, and each one that fails gives a detail.
  \<open>Joi.number()\<close> is alike. The bodies are typed: a name that is not a string, or a
  coordinate that is not an integer, is not modelled. Lengths are counted in characters.
\<close>

fun decimal :: "nat \<Rightarrow> string" where
  "decimal n =
     (if n < 10 then [''0123456789'' ! n] else decimal (n div 10) @ [''0123456789'' ! (n mod 10)])"

declare decimal.simps [simp del]

definition label :: "string list \<Rightarrow> string" where
  "label p = [CHR 0x22] @ join p ''.'' @ [CHR 0x22]"

definition anyRequired :: "string list \<Rightarrow> joi_value joi_detail" where
  "anyRequired p = \<lparr>path = p, message = label p @ '' is required'', context_value = None\<rparr>"

definition stringEmpty :: "string list \<Rightarrow> joi_value joi_detail" where
  "stringEmpty p =
     \<lparr>path = p, message = label p @ '' is not allowed to be empty'',
      context_value = Some (StringValue [])\<rparr>"

definition stringMin :: "nat \<Rightarrow> string list \<Rightarrow> string \<Rightarrow> joi_value joi_detail list" where
  "stringMin limit p s =
     (if length s < limit
      then [\<lparr>path = p,
             message = label p @ '' length must be at least '' @ decimal limit
                         @ '' characters long'',
             context_value = Some (StringValue s)\<rparr>]
      else [])"

definition stringMax :: "nat \<Rightarrow> string list \<Rightarrow> string \<Rightarrow> joi_value joi_detail list" where
  "stringMax limit p s =
     (if limit < length s
      then [\<lparr>path = p,
             message = label p @ '' length must be less than or equal to '' @ decimal limit
                         @ '' characters long'',
             context_value = Some (StringValue s)\<rparr>]
      else [])"

definition stringPattern ::
  "(string \<Rightarrow> bool) \<Rightarrow> string \<Rightarrow> string list \<Rightarrow> string \<Rightarrow> joi_value joi_detail list" where
  "stringPattern matches regex p s =
     (if matches s then []
      else [\<lparr>path = p,
             message = label p @ '' with value '' @ [CHR 0x22] @ s @ [CHR 0x22]
                         @ '' fails to match the required pattern: '' @ regex,
             context_value = Some (StringValue s)\<rparr>])"

definition numberMin :: "nat \<Rightarrow> string list \<Rightarrow> int \<Rightarrow> joi_value joi_detail list" where
  "numberMin limit p n =
     (if n < int limit
      then [\<lparr>path = p,
             message = label p @ '' must be greater than or equal to '' @ decimal limit,
             context_value = Some (NumberValue n)\<rparr>]
      else [])"

definition joiString ::
  "string list \<Rightarrow> bool \<Rightarrow> bool \<Rightarrow> (string list \<Rightarrow> string \<Rightarrow> joi_value joi_detail list) list
     \<Rightarrow> string option \<Rightarrow> joi_value joi_detail list" where
  "joiString p mustBePresent allowEmpty tests v =
     (case v of
        None \<Rightarrow> if mustBePresent then [anyRequired p] else []
      | Some s \<Rightarrow>
          if s = [] then (if allowEmpty then [] else [stringEmpty p])
          else concat (map (\<lambda>test. test p s) tests))"

definition joiNumber ::
  "string list \<Rightarrow> bool \<Rightarrow> (string list \<Rightarrow> int \<Rightarrow> joi_value joi_detail list) list
     \<Rightarrow> int option \<Rightarrow> joi_value joi_detail list" where
  "joiNumber p mustBePresent tests v =
     (case v of
        None \<Rightarrow> if mustBePresent then [anyRequired p] else []
      | Some n \<Rightarrow> concat (map (\<lambda>test. test p n) tests))"

subsection \<open>The schema \<open>table\<close>\<close>

definition identifierChar :: "char \<Rightarrow> bool" where
  "identifierChar c \<longleftrightarrow>
     (CHR ''A'' \<le> c \<and> c \<le> CHR ''Z'') \<or> (CHR ''a'' \<le> c \<and> c \<le> CHR ''z'') \<or>
     (CHR ''0'' \<le> c \<and> c \<le> CHR ''9'') \<or> c = CHR ''_''"

definition letterChar :: "char \<Rightarrow> bool" where
  "letterChar c \<longleftrightarrow>
     (CHR ''A'' \<le> c \<and> c \<le> CHR ''Z'') \<or> (CHR ''a'' \<le> c \<and> c \<le> CHR ''z'')"

definition hexChar :: "char \<Rightarrow> bool" where
  "hexChar c \<longleftrightarrow>
     (CHR ''0'' \<le> c \<and> c \<le> CHR ''9'') \<or> (CHR ''a'' \<le> c \<and> c \<le> CHR ''f'') \<or>
     (CHR ''A'' \<le> c \<and> c \<le> CHR ''F'')"

text \<open>The pattern \<open>/^[a-zA-Z][a-zA-Z0-9_]*$/\<close> of table and column names.\<close>

definition isIdentifier :: "string \<Rightarrow> bool" where
  "isIdentifier s = (case s of [] \<Rightarrow> False | c # cs \<Rightarrow> letterChar c \<and> list_all identifierChar cs)"

text \<open>The pattern \<open>/^#[0-9a-fA-F]{6}$/\<close> of colours.\<close>

definition isColor :: "string \<Rightarrow> bool" where
  "isColor s = (case s of [] \<Rightarrow> False | c # cs \<Rightarrow> c = CHR ''#'' \<and> length cs = 6 \<and> list_all hexChar cs)"

text \<open>The body of a request for a table: each key is present or absent.\<close>

record position_body =
  pos_x :: "int option"
  pos_y :: "int option"

record table_body =
  tb_name :: "string option"
  tb_description :: "string option"
  tb_position :: "position_body option"
  tb_color :: "string option"

text \<open>
  \<open>schemas.table\<close>: the rules of the keys \<open>name\<close>, \<open>description\<close>, \<open>position\<close> (with \<open>x\<close> and
  \<open>y\<close>) and \<open>color\<close>, in the order of the keys, and the default of \<open>color\<close>.
\<close>

definition tableSchema :: "(table_body, joi_value) joi_schema" where
  "tableSchema =
     \<lparr>rules =
        [\<lambda>b. joiString [''name''] True False
                [stringMin 1, stringMax 100,
                 stringPattern isIdentifier ''/^[a-zA-Z][a-zA-Z0-9_]*$/'']
                (tb_name b),
         \<lambda>b. joiString [''description''] False True [stringMax 500] (tb_description b),
         \<lambda>b. (case tb_position b of
                 None \<Rightarrow> [anyRequired [''position'']]
               | Some p \<Rightarrow>
                   joiNumber [''position'', ''x''] True [numberMin 0] (pos_x p)
                   @ joiNumber [''position'', ''y''] True [numberMin 0] (pos_y p)),
         \<lambda>b. joiString [''color''] False False
                [stringPattern isColor ''/^#[0-9a-fA-F]{6}$/''] (tb_color b)],
      defaults =
        (\<lambda>b. b\<lparr>tb_color := Some (case tb_color b of None \<Rightarrow> ''#ffffff'' | Some c \<Rightarrow> c)\<rparr>)\<rparr>"

text \<open>The entry of the table of schemas that validates the body of a table.\<close>

definition tableSchemas :: "string \<rightharpoonup> (table_body, joi_value) joi_schema" where
  "tableSchemas = [''table'' \<mapsto> tableSchema]"

text \<open>A body with three defects: the name, and both coordinates of the position.\<close>

definition badTableBody :: table_body where
  "badTableBody =
     \<lparr>tb_name = Some ''2 tables'', tb_description = None,
      tb_position = Some \<lparr>pos_x = Some (- 5), pos_y = Some (- 1)\<rparr>, tb_color = None\<rparr>"

definition emptyBody :: table_body where
  "emptyBody = \<lparr>tb_name = None, tb_description = None, tb_position = None, tb_color = None\<rparr>"

definition badTableRequest :: "table_body request" where
  "badTableRequest = \<lparr>query = emptyBody, body = badTableBody\<rparr>"

subsection \<open>validateUUID and validateUUIDs\<close>

text \<open>
  \<open>Joi.string().uuid()\<close>, from the documentation of Joi (version 17): eight, four, four,
  four and twelve hexadecimal digits, in either case; after the first group an optional
  separator \<open>-\<close> or \<open>:\<close>, which may then stand (or not) before each later group; and
  optionally a pair of matching brackets around the whole. A parameter of a route is a
  string.
\<close>

fun hexRun :: "nat \<Rightarrow> string \<Rightarrow> string option" where
  "hexRun 0 s = Some s"
| "hexRun (Suc n) [] = None"
| "hexRun (Suc n) (c # cs) = (if hexChar c then hexRun n cs else None)"

definition optionalChar :: "char list \<Rightarrow> string \<Rightarrow> char option \<times> string" where
  "optionalChar choices s =
     (case s of
        [] \<Rightarrow> (None, [])
      | c # cs \<Rightarrow> if c \<in> set choices then (Some c, cs) else (None, s))"

definition sameSeparator :: "char option \<Rightarrow> string \<Rightarrow> string" where
  "sameSeparator sep s =
     (case sep of
        None \<Rightarrow> s
      | Some c \<Rightarrow> (case s of [] \<Rightarrow> [] | d # ds \<Rightarrow> if d = c then ds else s))"

definition closingBracket :: "char option \<Rightarrow> string" where
  "closingBracket opening =
     (case opening of
        None \<Rightarrow> []
      | Some c \<Rightarrow> if c = CHR ''{'' then ''}'' else if c = CHR ''['' then '']'' else '')'')"

definition isGuid :: "string \<Rightarrow> bool" where
  "isGuid s =
     (case optionalChar ''[{('' s of (opening, s1) \<Rightarrow>
        (case hexRun 8 s1 of None \<Rightarrow> False | Some s2 \<Rightarrow>
           (case optionalChar '':-'' s2 of (sep, s3) \<Rightarrow>
              (case hexRun 4 s3 of None \<Rightarrow> False | Some s4 \<Rightarrow>
                 (case hexRun 4 (sameSeparator sep s4) of None \<Rightarrow> False | Some s5 \<Rightarrow>
                    (case hexRun 4 (sameSeparator sep s5) of None \<Rightarrow> False | Some s6 \<Rightarrow>
                       (case hexRun 12 (sameSeparator sep s6) of None \<Rightarrow> False | Some s7 \<Rightarrow>
                          s7 = closingBracket opening)))))))"

section \<open>Deleting a table\<close>

subsection \<open>SchemaDesigner.deleteTable\<close>

text \<open>
  \<open>confirmed\<close> is the answer to the confirmation dialog. The table with the id is removed,
  and so is every relationship whose \<open>sourceTable\<close> or \<open>targetTable\<close> equals the id; the SQL
  text is generated again.
\<close>

definition deleteTable :: "bool \<Rightarrow> string \<Rightarrow> designer \<Rightarrow> designer" where
  "deleteTable confirmed tableId d =
     (if confirmed
      then generateSQL
             (d\<lparr>currentSchema :=
                  (currentSchema d)
                    \<lparr>tables := filter (\<lambda>t. table_id t \<noteq> tableId) (tables (currentSchema d)),
                     relationships :=
                       filter (\<lambda>r. sourceTable r \<noteq> tableId \<and> targetTable r \<noteq> tableId)
                         (relationships (currentSchema d))\<rparr>\<rparr>)
      else d)"

text \<open>
  The relationships of the designer that refer to a table that does not exist. The
  class resolves \<open>sourceTable\<close> and \<open>targetTable\<close> by the name of the table: in
  \<open>updateCanvasOverlay\<close> by \<open>tables.find(t => t.name === rel.sourceTable)\<close>, and in
  \<open>generateSQL\<close>, which writes them where the names of tables stand.
\<close>

definition designer_dangling :: "schema \<Rightarrow> relationship list" where
  "designer_dangling s =
     filter (\<lambda>r. \<not> (sourceTable r \<in> table_name ` set (tables s) \<and>
                    targetTable r \<in> table_name ` set (tables s)))
       (relationships s)"

text \<open>
  A state of the designer: the sample schema with the tables \<open>users\<close> and \<open>orders\<close> and
  their relationship, after the table \<open>users\<close> was renamed \<open>customers\<close> (\<open>saveTable\<close> keeps
  the id), and a table was added (\<open>addTable\<close> gives the id \<open>table_\<close> and the time) and
  named \<open>users\<close>.
\<close>

definition customersTable :: table where
  "customersTable = usersTable\<lparr>table_name := ''customers''\<rparr>"

definition addedTable :: table where
  "addedTable =
     \<lparr>table_id = ''table_1700000000000'', table_name = ''users'', position = (350, 250),
      table_columns =
        [\<lparr>column_name = ''id'', column_type = ''INTEGER'', primaryKey = True,
           required = True, unique = False\<rparr>]\<rparr>"

definition renamedDesigner :: designer where
  "renamedDesigner =
     \<lparr>currentSchema =
        \<lparr>schema_id = ''ecommerce'', schema_name = ''E-commerce Schema'',
         tables = [customersTable, ordersTable, addedTable],
         relationships = [userOrders]\<rparr>,
      zoomLevel = 1, panOffset = (0, 0), sqlOutput = []\<rparr>"

subsection \<open>The store (useSchemaStore)\<close>

text \<open>
  The schema of the store as the API delivers it: tables and relationships carry ids, and
  a relationship names its tables by id.
\<close>

record store_table =
  st_id :: string
  st_name :: string

record store_relationship =
  sr_id :: string
  sourceTableId :: string
  sourceColumnId :: string
  targetTableId :: string
  targetColumnId :: string

record store_schema =
  ss_id :: string
  ss_tables :: "store_table list"
  ss_relationships :: "store_relationship list"

record store =
  st_currentSchema :: "store_schema option"
  st_selectedTable :: "store_table option"
  st_editingTable :: "store_table option"

definition clearIfId :: "string \<Rightarrow> store_table option \<Rightarrow> store_table option" where
  "clearIfId tableId sel =
     (case sel of None \<Rightarrow> None | Some t \<Rightarrow> if st_id t = tableId then None else Some t)"

definition removeTable :: "string \<Rightarrow> store \<Rightarrow> store" where
  "removeTable tableId state =
     \<lparr>st_currentSchema =
        (case st_currentSchema state of
           None \<Rightarrow> None
         | Some s \<Rightarrow>
             Some (s\<lparr>ss_tables := filter (\<lambda>t. st_id t \<noteq> tableId) (ss_tables s),
                     ss_relationships :=
                       filter (\<lambda>r. sourceTableId r \<noteq> tableId \<and> targetTableId r \<noteq> tableId)
                         (ss_relationships s)\<rparr>)),
      st_selectedTable = clearIfId tableId (st_selectedTable state),
      st_editingTable = clearIfId tableId (st_editingTable state)\<rparr>"

text \<open>
  The relationships of the store that refer to a table that does not exist, by
  \<open>sourceTableId\<close> and \<open>targetTableId\<close>.
\<close>

definition store_dangling :: "store_schema \<Rightarrow> store_relationship list" where
  "store_dangling s =
     filter (\<lambda>r. \<not> (sourceTableId r \<in> st_id ` set (ss_tables s) \<and>
                    targetTableId r \<in> st_id ` set (ss_tables s)))
       (ss_relationships s)"

section \<open>The database (database/init.js) and the table routes\<close>

text \<open>
  The tables \<open>tables\<close>, \<open>columns\<close> and \<open>relationships\<close> of the database, with the ids of
  the rows of \<open>schemas\<close>. The declarations give \<open>tables\<close> the constraint
  \<open>UNIQUE(schema_id, name)\<close> and every reference \<open>ON DELETE CASCADE\<close>; foreign keys are
  switched on. The columns are declared \<open>TEXT\<close> with no collation, so SQLite compares
  names byte by byte: \<open>=\<close> on names is equality of strings. Of the columns of \<open>tables\<close>
  the position, the colour and the time stamps are left out.
\<close>

record database =
  db_schemas :: "string list"
  db_tables :: "table_row list"
  db_columns :: "column_row list"
  db_relationships :: "relationship_row list"

text \<open>
  The responses of the table routes: success, a refusal with status, code and message,
  the refusal of \<open>validate\<close> with its details, and the refusal of \<open>validateUUIDs\<close> with
  its messages.
\<close>

datatype table_response =
    Created string
  | Updated
  | Deleted
  | Rejected nat string string
  | RejectedDetails nat string string "joi_value validation_error list"
  | RejectedParameters nat string string "string list"

text \<open>
  A middleware either answers the request (\<open>Some\<close>) or calls \<open>next\<close> (\<open>None\<close>).
  \<open>validateUUID\<close> checks one parameter of the route, \<open>validateUUIDs\<close> several, collecting
  a message for each that fails.
\<close>

definition validateUUID :: "string \<Rightarrow> string \<Rightarrow> table_response option" where
  "validateUUID paramName uuid =
     (if isGuid uuid then None
      else Some (Rejected 400 ''INVALID_UUID'' (''Invalid '' @ paramName @ '' format'')))"

definition validateUUIDs :: "(string \<times> string) list \<Rightarrow> table_response option" where
  "validateUUIDs params =
     (let errors = map (\<lambda>(paramName, uuid). ''Invalid '' @ paramName @ '' format'')
                     (filter (\<lambda>(paramName, uuid). \<not> isGuid uuid) params)
      in if errors \<noteq> []
         then Some (RejectedParameters 400 ''INVALID_PARAMETERS'' ''Invalid parameter format''
                      errors)
         else None)"

text \<open>
  The middleware \<open>authenticate\<close> and \<open>authorizeSchemaAccess\<close> (\<open>middleware/auth\<close>) is
  missing from the sources. A request carries what each of them does with it: it answers
  (\<open>Some\<close>) or calls \<open>next\<close> (\<open>None\<close>).
\<close>

record access =
  authenticate :: "table_response option"
  authorizeSchemaAccess :: "table_response option"

text \<open>
  \<open>INSERT INTO tables\<close>: the statement fails when the id is taken (PRIMARY KEY), when the
  schema does not exist (FOREIGN KEY) or when the schema has a table of that name
  (UNIQUE).
\<close>

definition insertTable :: "table_row \<Rightarrow> database \<Rightarrow> database option" where
  "insertTable row db =
     (if list_ex (\<lambda>t. t_id t = t_id row) (db_tables db) then None
      else if t_schema_id row \<notin> set (db_schemas db) then None
      else if list_ex (\<lambda>t. t_schema_id t = t_schema_id row \<and> t_name t = t_name row) (db_tables db)
      then None
      else Some (db\<lparr>db_tables := db_tables db @ [row]\<rparr>))"

text \<open>\<open>INSERT INTO columns\<close>, with its PRIMARY KEY, FOREIGN KEY and UNIQUE constraints.\<close>

definition insertColumn :: "column_row \<Rightarrow> database \<Rightarrow> database option" where
  "insertColumn row db =
     (if list_ex (\<lambda>c. c_id c = c_id row) (db_columns db) then None
      else if \<not> list_ex (\<lambda>t. t_id t = c_table_id row) (db_tables db) then None
      else if list_ex (\<lambda>c. c_table_id c = c_table_id row \<and> c_name c = c_name row) (db_columns db)
      then None
      else Some (db\<lparr>db_columns := db_columns db @ [row]\<rparr>))"

text \<open>
  The handler of POST /:schemaId/tables. \<open>tableId\<close> and \<open>columnId\<close> are the two fresh
  uuids. A table of the same name in the schema is answered with 409; an exception of a
  statement with 500. The statements run one by one, outside a transaction.
\<close>

definition createTable ::
  "string \<Rightarrow> string \<Rightarrow> string \<Rightarrow> string \<Rightarrow> string option \<Rightarrow> database
     \<Rightarrow> table_response \<times> database" where
  "createTable tableId columnId schemaId name description db =
     (case find (\<lambda>t. t_schema_id t = schemaId \<and> t_name t = name) (db_tables db) of
        Some existingTable \<Rightarrow>
          (Rejected 409 ''DUPLICATE_RESOURCE'' ''Table with this name already exists in schema'', db)
      | None \<Rightarrow>
          (case insertTable \<lparr>t_id = tableId, t_schema_id = schemaId, t_name = name,
                            t_description = Some (case description of None \<Rightarrow> [] | Some d \<Rightarrow> d)\<rparr> db of
             None \<Rightarrow> (Rejected 500 ''INTERNAL_SERVER_ERROR'' ''Failed to create table'', db)
           | Some db1 \<Rightarrow>
               (case insertColumn (idColumnRow columnId tableId) db1 of
                  None \<Rightarrow> (Rejected 500 ''INTERNAL_SERVER_ERROR'' ''Failed to create table'', db1)
                | Some db2 \<Rightarrow> (Created tableId, db2))))"

text \<open>
  POST /:schemaId/tables: \<open>authenticate\<close>, \<open>validateUUID('schemaId')\<close>,
  \<open>authorizeSchemaAccess('editor')\<close> and \<open>validate('table')\<close> come before the handler, which
  reads the validated body. A body without a name does not pass \<open>validate('table')\<close>;
  the \<open>INSERT\<close> of no name is refused by \<open>NOT NULL\<close>.
\<close>

definition createTableRoute ::
  "access \<Rightarrow> string \<Rightarrow> string \<Rightarrow> string \<Rightarrow> table_body request \<Rightarrow> database
     \<Rightarrow> table_response \<times> database" where
  "createTableRoute acc tableId columnId schemaId req db =
     (case authenticate acc of
        Some response \<Rightarrow> (response, db)
      | None \<Rightarrow>
     (case validateUUID ''schemaId'' schemaId of
        Some response \<Rightarrow> (response, db)
      | None \<Rightarrow>
     (case authorizeSchemaAccess acc of
        Some response \<Rightarrow> (response, db)
      | None \<Rightarrow>
     (case validate joiValidate tableSchemas ''table'' ''body'' req of
        Respond status code msg details \<Rightarrow> (RejectedDetails status code msg details, db)
      | Next validated \<Rightarrow>
          (case tb_name (body validated) of
             None \<Rightarrow> (Rejected 500 ''INTERNAL_SERVER_ERROR'' ''Failed to create table'', db)
           | Some name \<Rightarrow>
               createTable tableId columnId schemaId name (tb_description (body validated))
                 db)))))"

text \<open>
  The handler of PUT /:schemaId/tables/:tableId for a body with a new name and nothing
  else: \<open>UPDATE tables SET name = ?\<close> fails on the UNIQUE constraint when another table
  of the schema has that name.
\<close>

definition renameTable ::
  "string \<Rightarrow> string \<Rightarrow> string \<Rightarrow> database \<Rightarrow> table_response \<times> database" where
  "renameTable schemaId tableId name db =
     (case find (\<lambda>t. t_id t = tableId \<and> t_schema_id t = schemaId) (db_tables db) of
        None \<Rightarrow> (Rejected 404 ''RESOURCE_NOT_FOUND'' ''Table not found in schema'', db)
      | Some table \<Rightarrow>
          (if list_ex (\<lambda>t. t_id t \<noteq> tableId \<and> t_schema_id t = schemaId \<and> t_name t = name)
                (db_tables db)
           then (Rejected 500 ''INTERNAL_SERVER_ERROR'' ''Failed to update table'', db)
           else (Updated,
                 db\<lparr>db_tables :=
                      map (\<lambda>t. if t_id t = tableId then t\<lparr>t_name := name\<rparr> else t) (db_tables db)\<rparr>)))"

text \<open>
  PUT /:schemaId/tables/:tableId: \<open>authenticate\<close>, \<open>validateUUIDs('schemaId', 'tableId')\<close>
  and \<open>authorizeSchemaAccess('editor')\<close> come before the handler; the body is not
  validated.
\<close>

definition renameTableRoute ::
  "access \<Rightarrow> string \<Rightarrow> string \<Rightarrow> string \<Rightarrow> database \<Rightarrow> table_response \<times> database" where
  "renameTableRoute acc schemaId tableId name db =
     (case authenticate acc of
        Some response \<Rightarrow> (response, db)
      | None \<Rightarrow>
     (case validateUUIDs [(''schemaId'', schemaId), (''tableId'', tableId)] of
        Some response \<Rightarrow> (response, db)
      | None \<Rightarrow>
     (case authorizeSchemaAccess acc of
        Some response \<Rightarrow> (response, db)
      | None \<Rightarrow> renameTable schemaId tableId name db)))"

text \<open>
  \<open>DELETE FROM tables WHERE id = ?\<close> with the cascades of the declarations: the columns
  of the table go, and every relationship that refers to the table or to one of its
  columns.
\<close>

definition deleteTableCascade :: "string \<Rightarrow> database \<Rightarrow> database" where
  "deleteTableCascade tableId db =
     (let gone = map c_id (filter (\<lambda>c. c_table_id c = tableId) (db_columns db))
      in db\<lparr>db_tables := filter (\<lambda>t. t_id t \<noteq> tableId) (db_tables db),
            db_columns := filter (\<lambda>c. c_table_id c \<noteq> tableId) (db_columns db),
            db_relationships :=
              filter (\<lambda>r. source_table_id r \<noteq> tableId \<and> target_table_id r \<noteq> tableId \<and>
                          source_column_id r \<notin> set gone \<and> target_column_id r \<notin> set gone)
                (db_relationships db)\<rparr>)"

text \<open>The handler of DELETE /:schemaId/tables/:tableId.\<close>

definition deleteTableRow :: "string \<Rightarrow> string \<Rightarrow> database \<Rightarrow> table_response \<times> database" where
  "deleteTableRow schemaId tableId db =
     (case find (\<lambda>t. t_id t = tableId \<and> t_schema_id t = schemaId) (db_tables db) of
        None \<Rightarrow> (Rejected 404 ''RESOURCE_NOT_FOUND'' ''Table not found in schema'', db)
      | Some table \<Rightarrow> (Deleted, deleteTableCascade tableId db))"

text \<open>
  DELETE /:schemaId/tables/:tableId: \<open>authenticate\<close>,
  \<open>validateUUIDs('schemaId', 'tableId')\<close> and \<open>authorizeSchemaAccess('editor')\<close> come before
  the handler.
\<close>

definition deleteTableRoute ::
  "access \<Rightarrow> string \<Rightarrow> string \<Rightarrow> database \<Rightarrow> table_response \<times> database" where
  "deleteTableRoute acc schemaId tableId db =
     (case authenticate acc of
        Some response \<Rightarrow> (response, db)
      | None \<Rightarrow>
     (case validateUUIDs [(''schemaId'', schemaId), (''tableId'', tableId)] of
        Some response \<Rightarrow> (response, db)
      | None \<Rightarrow>
     (case authorizeSchemaAccess acc of
        Some response \<Rightarrow> (response, db)
      | None \<Rightarrow> deleteTableRow schemaId tableId db)))"

text \<open>The requests on tables, and the databases that they reach from an empty one.\<close>

datatype table_request =
    CreateTableRequest access string string string "table_body request"
  | RenameTableRequest access string string string
  | DeleteTableRequest access string string

fun handle :: "table_request \<Rightarrow> database \<Rightarrow> table_response \<times> database" where
  "handle (CreateTableRequest acc tableId columnId schemaId req) db =
     createTableRoute acc tableId columnId schemaId req db"
| "handle (RenameTableRequest acc schemaId tableId name) db =
     renameTableRoute acc schemaId tableId name db"
| "handle (DeleteTableRequest acc schemaId tableId) db = deleteTableRoute acc schemaId tableId db"

definition emptyDatabase :: "string list \<Rightarrow> database" where
  "emptyDatabase schemaIds =
     \<lparr>db_schemas = schemaIds, db_tables = [], db_columns = [], db_relationships = []\<rparr>"

definition run :: "table_request list \<Rightarrow> database \<Rightarrow> database" where
  "run requests db = foldl (\<lambda>db request. snd (handle request db)) db requests"

text \<open>Lower case of the ASCII letters, and names that differ in case only.\<close>

definition lowerChar :: "char \<Rightarrow> char" where
  "lowerChar c = (if CHR ''A'' \<le> c \<and> c \<le> CHR ''Z'' then char_of (of_char c + (32::nat)) else c)"

definition sameIgnoringCase :: "string \<Rightarrow> string \<Rightarrow> bool" where
  "sameIgnoringCase a b \<longleftrightarrow> map lowerChar a = map lowerChar b"

text \<open>The names of the tables of the database, each with its schema.\<close>

definition tableKeys :: "database \<Rightarrow> (string \<times> string) list" where
  "tableKeys db = map (\<lambda>t. (t_schema_id t, t_name t)) (db_tables db)"

text \<open>The uniqueness that the database keeps: of the ids, and of the names within a schema.\<close>

definition uniqueTables :: "database \<Rightarrow> bool" where
  "uniqueTables db \<longleftrightarrow> distinct (map t_id (db_tables db)) \<and> distinct (tableKeys db)"

text \<open>The relationship rows that refer to a table row that does not exist.\<close>

definition db_dangling :: "database \<Rightarrow> relationship_row list" where
  "db_dangling db =
     filter (\<lambda>r. \<not> (source_table_id r \<in> t_id ` set (db_tables db) \<and>
                    target_table_id r \<in> t_id ` set (db_tables db)))
       (db_relationships db)"

text \<open>
  Requests that pass \<open>authenticate\<close> and \<open>authorizeSchemaAccess\<close>, for two tables whose
  names differ in case only, in one schema; the ids are uuids.
\<close>

definition granted :: access where
  "granted = \<lparr>authenticate = None, authorizeSchemaAccess = None\<rparr>"

definition shopId :: string where
  "shopId = ''5f0c1a2b-3c4d-4e5f-8a6b-7c8d9e0f1a2b''"

definition tableBody :: "string \<Rightarrow> table_body request" where
  "tableBody name =
     \<lparr>query = emptyBody,
      body = \<lparr>tb_name = Some name, tb_description = None,
              tb_position = Some \<lparr>pos_x = Some 100, pos_y = Some 100\<rparr>, tb_color = None\<rparr>\<rparr>"

definition createCustomer :: table_request where
  "createCustomer =
     CreateTableRequest granted ''0a1b2c3d-0001-4000-8000-000000000001''
       ''0a1b2c3d-0001-4000-8000-0000000000c1'' shopId (tableBody ''Customer'')"

definition createcustomer :: table_request where
  "createcustomer =
     CreateTableRequest granted ''0a1b2c3d-0002-4000-8000-000000000002''
       ''0a1b2c3d-0002-4000-8000-0000000000c2'' shopId (tableBody ''customer'')"

section \<open>Example queries\<close>

text \<open>A query that asks for the DROP statements.\<close>

definition dropQuery :: sql_query where
  "dropQuery =
     \<lparr>q_dialect = Some ''postgresql'', q_includeDropStatements = Some ''true'',
      q_includeComments = None\<rparr>"

chapter \<open>Properties\<close>

section \<open>Structure of the generated text\<close>

lemma foldl_append_concat:
  "foldl (\<lambda>acc x. acc @ f x) a xs = a @ concat (map f xs)"
  by (induction xs arbitrary: a) simp_all

lemma generateSQL_text_phases:
  "generateSQL_text s =
     concat (map createTableStatement (tables s))
       @ concat (map addConstraintStatement (relationships s))"
  by (simp add: generateSQL_text_def foldl_append_concat)

lemma createTableStatement_prefix: "prefix ''CREATE TABLE '' (createTableStatement t)"
  by (simp add: createTableStatement_def)

lemma addConstraintStatement_prefix: "prefix ''ALTER TABLE '' (addConstraintStatement r)"
  by (simp add: addConstraintStatement_def)

lemma createTableStatement_not_alter: "\<not> prefix ''ALTER TABLE '' (createTableStatement t)"
  by (simp add: createTableStatement_def)

lemma addConstraintStatement_not_create: "\<not> prefix ''CREATE TABLE '' (addConstraintStatement r)"
  by (simp add: addConstraintStatement_def)

lemma statements_nth_create:
  "i < length (tables s) \<Longrightarrow> statements s ! i = createTableStatement (tables s ! i)"
  by (simp add: statements_def nth_append)

lemma statements_nth_alter:
  "length (tables s) \<le> i \<Longrightarrow> i < length (statements s) \<Longrightarrow>
   statements s ! i = addConstraintStatement (relationships s ! (i - length (tables s)))"
  by (simp add: statements_def nth_append)

lemma addConstraintStatement_includes:
  "str_includes (addConstraintStatement r) ''ADD CONSTRAINT''"
  unfolding str_includes_def addConstraintStatement_def sublist_def
  by (rule exI [of _ "''ALTER TABLE '' @ targetTable r @ '' ''"], rule exI) simp

lemma statements_order:
  assumes "i < length (statements s)" "j < length (statements s)"
    and "prefix ''CREATE TABLE '' (statements s ! i)"
    and "prefix ''ALTER TABLE '' (statements s ! j)"
  shows "i < j"
proof -
  have "i < length (tables s)"
  proof (rule ccontr)
    assume "\<not> i < length (tables s)"
    then have "statements s ! i = addConstraintStatement (relationships s ! (i - length (tables s)))"
      using assms(1) by (simp add: statements_nth_alter)
    with assms(3) show False by (simp add: addConstraintStatement_not_create)
  qed
  moreover have "length (tables s) \<le> j"
  proof (rule ccontr)
    assume "\<not> length (tables s) \<le> j"
    then have "statements s ! j = createTableStatement (tables s ! j)"
      by (simp add: statements_nth_create)
    with assms(4) show False by (simp add: createTableStatement_not_alter)
  qed
  ultimately show ?thesis by simp
qed

lemma statements_kinds:
  "x \<in> set (statements s) \<Longrightarrow>
     prefix ''CREATE TABLE '' x \<or> (prefix ''ALTER TABLE '' x \<and> str_includes x ''ADD CONSTRAINT'')"
  by (auto simp: statements_def createTableStatement_prefix addConstraintStatement_prefix
      addConstraintStatement_includes)

lemma statements_without_relationships:
  "statements (s\<lparr>relationships := []\<rparr>) = map createTableStatement (tables s)"
  by (simp add: statements_def)

lemma sqlOutput_generateSQL:
  "sqlOutput (generateSQL d) = concat (statements (currentSchema d))"
  by (simp add: generateSQL_def generateSQL_text_phases statements_def)

section \<open>No foreign-key text in CREATE TABLE statements\<close>

lemma no_space_not_sublist:
  "CHR '' '' \<notin> set x \<Longrightarrow> \<not> sublist ''FOREIGN KEY'' x"
  using set_mono_sublist [of "''FOREIGN KEY''" x] by auto

lemma fk_split:
  assumes "''FOREIGN KEY'' = xs1 @ xs2" "CHR '' '' \<notin> set xs1" "xs1 \<noteq> []"
    "xs2 = c # r" "c \<notin> set ''FOREIGN''"
  shows "xs1 = ''FOREIGN'' \<and> c = CHR '' '' \<and> r = ''KEY''"
proof -
  have "length xs1 \<le> 7"
  proof (rule ccontr)
    assume "\<not> length xs1 \<le> 7"
    then have "8 \<le> length xs1" by simp
    moreover have "take 8 (xs1 @ xs2) = ''FOREIGN ''" using assms(1) [symmetric] by simp
    ultimately have "take 8 xs1 = ''FOREIGN ''" by simp
    then have "CHR '' '' \<in> set (take 8 xs1)" by simp
    then show False using assms(2) by (meson in_set_takeD)
  qed
  moreover have "0 < length xs1" using assms(3) by simp
  ultimately have "length xs1 = 1 \<or> length xs1 = 2 \<or> length xs1 = 3 \<or> length xs1 = 4
      \<or> length xs1 = 5 \<or> length xs1 = 6 \<or> length xs1 = 7" by arith
  moreover have "xs1 = take (length xs1) ''FOREIGN KEY''" "xs2 = drop (length xs1) ''FOREIGN KEY''"
    using assms(1) by simp_all
  ultimately show ?thesis using assms(4,5)
    by (elim disjE) simp_all
qed


lemma fk_after_word:
  assumes "CHR '' '' \<notin> set x" and "c \<notin> set ''FOREIGN''"
    and "sublist ''FOREIGN KEY'' (x @ c # r)"
  shows "sublist ''FOREIGN KEY'' (c # r) \<or>
         (c = CHR '' '' \<and> suffix ''FOREIGN'' x \<and> prefix ''KEY'' r)"
proof -
  from assms(3) consider "sublist ''FOREIGN KEY'' x" | "sublist ''FOREIGN KEY'' (c # r)"
    | xs1 xs2 where "''FOREIGN KEY'' = xs1 @ xs2" "suffix xs1 x" "prefix xs2 (c # r)"
    unfolding sublist_append by blast
  then show ?thesis
  proof cases
    case 1
    with assms(1) show ?thesis by (simp add: no_space_not_sublist)
  next
    case 2
    then show ?thesis by simp
  next
    case 3
    from 3(2) have "set xs1 \<subseteq> set x" by (rule set_mono_suffix)
    with assms(1) have ns: "CHR '' '' \<notin> set xs1" by blast
    show ?thesis
    proof (cases "xs1 = []")
      case True
      with 3(1,3) have "prefix ''FOREIGN KEY'' (c # r)" by simp
      then show ?thesis by (simp add: sublist_Cons_right)
    next
      case False
      have "xs2 \<noteq> []" using 3(1) ns by auto
      with 3(3) obtain r' where xs2: "xs2 = c # r'" and pr: "prefix r' r"
        by (cases xs2) simp_all
      from fk_split [OF 3(1) ns False xs2 assms(2)] 3(2) pr show ?thesis by simp
    qed
  qed
qed

text \<open>A word without blanks, followed by a blank or by another character.\<close>

lemma fk_word_space:
  assumes "CHR '' '' \<notin> set x" "\<not> prefix ''KEY'' r"
  shows "sublist ''FOREIGN KEY'' (x @ CHR '' '' # r) \<longleftrightarrow> sublist ''FOREIGN KEY'' r"
proof
  assume "sublist ''FOREIGN KEY'' (x @ CHR '' '' # r)"
  from fk_after_word [OF assms(1) _ this] assms(2)
  have "sublist ''FOREIGN KEY'' (CHR '' '' # r)" by auto
  then show "sublist ''FOREIGN KEY'' r" by (simp add: sublist_Cons_right)
next
  assume "sublist ''FOREIGN KEY'' r"
  then obtain ps ss where "r = ps @ ''FOREIGN KEY'' @ ss" unfolding sublist_def by blast
  then have "x @ CHR '' '' # r = (x @ CHR '' '' # ps) @ ''FOREIGN KEY'' @ ss" by simp
  then show "sublist ''FOREIGN KEY'' (x @ CHR '' '' # r)" unfolding sublist_def by blast
qed

lemma fk_word_other:
  assumes "CHR '' '' \<notin> set x" "c \<notin> set ''FOREIGN ''"
  shows "sublist ''FOREIGN KEY'' (x @ c # r) \<longleftrightarrow> sublist ''FOREIGN KEY'' r"
proof
  assume a: "sublist ''FOREIGN KEY'' (x @ c # r)"
  have "c \<notin> set ''FOREIGN''" using assms(2) by simp
  from fk_after_word [OF assms(1) this a] assms(2)
  have "sublist ''FOREIGN KEY'' (c # r)" by auto
  then show "sublist ''FOREIGN KEY'' r" using assms(2) by (auto simp add: sublist_Cons_right)
next
  assume "sublist ''FOREIGN KEY'' r"
  then obtain ps ss where "r = ps @ ''FOREIGN KEY'' @ ss" unfolding sublist_def by blast
  then have "x @ c # r = (x @ c # ps) @ ''FOREIGN KEY'' @ ss" by simp
  then show "sublist ''FOREIGN KEY'' (x @ c # r)" unfolding sublist_def by blast
qed


lemma prefix_KEY_append:
  "\<not> prefix ''KEY'' t \<Longrightarrow> c \<notin> set ''KEY'' \<Longrightarrow> \<not> prefix ''KEY'' (t @ c # r)"
  by (cases t; cases "tl t"; cases "tl (tl t)") auto

lemma columnDefinition_no_fk:
  assumes "plain_column c" "d \<in> {CHR '','', CHR 0x0A}"
  shows "sublist ''FOREIGN KEY'' (columnDefinition c @ d # r) \<longleftrightarrow> sublist ''FOREIGN KEY'' r"
  using assms
  by (auto simp: columnDefinition_def plain_column_def Let_def fk_word_space fk_word_other
      sublist_Cons_right prefix_KEY_append)


lemma join_columns_no_fk:
  assumes "\<forall>c \<in> set cols. plain_column c"
  shows "sublist ''FOREIGN KEY'' (join (map columnDefinition cols) '',\<newline>'' @ CHR 0x0A # r)
         \<longleftrightarrow> sublist ''FOREIGN KEY'' r"
  using assms
proof (induction cols rule: induct_list012)
  case 1
  show ?case by (simp add: sublist_Cons_right)
next
  case (2 x)
  then show ?case by (simp add: columnDefinition_no_fk)
next
  case (3 x y zs)
  have "sublist ''FOREIGN KEY''
          (columnDefinition x @ CHR '','' # CHR 0x0A #
             (join (map columnDefinition (y # zs)) '',\<newline>'' @ CHR 0x0A # r))
        \<longleftrightarrow> sublist ''FOREIGN KEY''
          (CHR 0x0A # (join (map columnDefinition (y # zs)) '',\<newline>'' @ CHR 0x0A # r))"
    using 3(3) by (simp add: columnDefinition_no_fk)
  also have "\<dots> \<longleftrightarrow> sublist ''FOREIGN KEY''
          (join (map columnDefinition (y # zs)) '',\<newline>'' @ CHR 0x0A # r)"
    by (simp add: sublist_Cons_right)
  also have "\<dots> \<longleftrightarrow> sublist ''FOREIGN KEY'' r"
    using 3(2,3) by simp
  finally show ?case by simp
qed

lemma createTableStatement_no_foreign_key:
  assumes "CHR '' '' \<notin> set (table_name t)" "\<forall>c \<in> set (table_columns t). plain_column c"
  shows "\<not> str_includes (createTableStatement t) ''FOREIGN KEY''"
proof -
  have "\<not> sublist ''FOREIGN KEY'' '');\<newline>\<newline>''"
    by (simp add: sublist_Cons_right)
  with join_columns_no_fk [OF assms(2), of "'');\<newline>\<newline>''"]
  have "\<not> sublist ''FOREIGN KEY''
     (join (map columnDefinition (table_columns t)) '',\<newline>'' @ CHR 0x0A # '');\<newline>\<newline>'')"
    by simp
  then show ?thesis
    using assms(1)
    by (simp add: str_includes_def createTableStatement_def nl_def sublist_Cons_right fk_word_space)
qed

section \<open>Two-phase emission\<close>

text \<open>
  Claim C1. The text written by \<open>generateSQL\<close> is the concatenation of its statements in
  emission order; each statement is a CREATE TABLE statement or an ALTER TABLE ... ADD
  CONSTRAINT statement; every CREATE TABLE statement comes before every ALTER TABLE
  statement; the CREATE TABLE statements are those of the same schema with all its
  relationships removed, so no relationship contributes anything to them; and the
  CREATE TABLE statement of a plain table does not contain the text \<open>FOREIGN KEY\<close>.
  The function has no failing branch: it yields this text for every schema, cyclic or not.
\<close>

theorem generateSQL_tables_before_constraints:
  "sqlOutput (generateSQL d) = concat (statements (currentSchema d)) \<and>
   (\<forall>x \<in> set (statements (currentSchema d)).
      prefix ''CREATE TABLE '' x \<or>
      (prefix ''ALTER TABLE '' x \<and> str_includes x ''ADD CONSTRAINT'')) \<and>
   (\<forall>i < length (statements (currentSchema d)).
    \<forall>j < length (statements (currentSchema d)).
      prefix ''CREATE TABLE '' (statements (currentSchema d) ! i) \<longrightarrow>
      prefix ''ALTER TABLE '' (statements (currentSchema d) ! j) \<longrightarrow> i < j) \<and>
   take (length (tables (currentSchema d))) (statements (currentSchema d)) =
     statements ((currentSchema d)\<lparr>relationships := []\<rparr>) \<and>
   (\<forall>t \<in> set (tables (currentSchema d)).
      plain_table t \<longrightarrow> \<not> str_includes (createTableStatement t) ''FOREIGN KEY'')"
proof (intro conjI allI impI ballI)
  show "sqlOutput (generateSQL d) = concat (statements (currentSchema d))"
    by (rule sqlOutput_generateSQL)
next
  fix x assume "x \<in> set (statements (currentSchema d))"
  then show "prefix ''CREATE TABLE '' x \<or>
      (prefix ''ALTER TABLE '' x \<and> str_includes x ''ADD CONSTRAINT'')"
    by (rule statements_kinds)
next
  fix i j
  assume "i < length (statements (currentSchema d))" "j < length (statements (currentSchema d))"
    "prefix ''CREATE TABLE '' (statements (currentSchema d) ! i)"
    "prefix ''ALTER TABLE '' (statements (currentSchema d) ! j)"
  then show "i < j" by (rule statements_order)
next
  show "take (length (tables (currentSchema d))) (statements (currentSchema d)) =
     statements ((currentSchema d)\<lparr>relationships := []\<rparr>)"
    by (simp add: statements_def)
next
  fix t assume "plain_table t"
  then show "\<not> str_includes (createTableStatement t) ''FOREIGN KEY''"
    by (simp add: plain_table_def createTableStatement_no_foreign_key)
qed

text \<open>The schema whose two tables refer to each other.\<close>

lemma statements_cycleSchema:
  "statements cycleSchema =
    [''CREATE TABLE A (\<newline>  id INTEGER PRIMARY KEY,\<newline>  b_id INTEGER\<newline>);\<newline>\<newline>'',
     ''CREATE TABLE B (\<newline>  id INTEGER PRIMARY KEY,\<newline>  a_id INTEGER\<newline>);\<newline>\<newline>'',
     ''ALTER TABLE B ADD CONSTRAINT fk_B_A FOREIGN KEY (a_id) REFERENCES A(id);\<newline>\<newline>'',
     ''ALTER TABLE A ADD CONSTRAINT fk_A_B FOREIGN KEY (b_id) REFERENCES B(id);\<newline>\<newline>'']"
  by (simp add: statements_def cycleSchema_def tableA_def tableB_def relAB_def relBA_def
      createTableStatement_def addConstraintStatement_def constraintName_def
      columnDefinition_def nl_def)

lemma plain_cycle_tables: "plain_table tableA" "plain_table tableB"
  by (simp_all add: plain_table_def plain_column_def tableA_def tableB_def)

theorem generateSQL_tables_before_constraints_witness:
  "sqlOutput (generateSQL cycleDesigner) =
     ''CREATE TABLE A (\<newline>  id INTEGER PRIMARY KEY,\<newline>  b_id INTEGER\<newline>);\<newline>\<newline>CREATE TABLE B (\<newline>  id INTEGER PRIMARY KEY,\<newline>  a_id INTEGER\<newline>);\<newline>\<newline>ALTER TABLE B ADD CONSTRAINT fk_B_A FOREIGN KEY (a_id) REFERENCES A(id);\<newline>\<newline>ALTER TABLE A ADD CONSTRAINT fk_A_B FOREIGN KEY (b_id) REFERENCES B(id);\<newline>\<newline>'' \<and>
   (1::nat) < length (statements cycleSchema) \<and> (2::nat) < length (statements cycleSchema) \<and>
   prefix ''CREATE TABLE '' (statements cycleSchema ! 1) \<and>
   prefix ''ALTER TABLE '' (statements cycleSchema ! 2) \<and> (1::nat) < 2 \<and>
   tableA \<in> set (tables cycleSchema) \<and> plain_table tableA \<and>
   \<not> str_includes (createTableStatement tableA) ''FOREIGN KEY''"
  using generateSQL_tables_before_constraints [of cycleDesigner]
  by (simp add: cycleDesigner_def statements_cycleSchema plain_cycle_tables)
    (simp add: cycleSchema_def plain_cycle_tables)

section \<open>Determinism\<close>

lemma map_eq_through:
  assumes "map f xs = map f ys" "\<And>x y. f x = f y \<Longrightarrow> g x = g y"
  shows "map g xs = map g ys"
  using assms(1)
proof (induction xs arbitrary: ys)
  case Nil
  then show ?case by simp
next
  case (Cons x xs)
  then obtain y ys' where ys: "ys = y # ys'" by (cases ys) auto
  with Cons.prems have fxy: "f x = f y" and rest: "map f xs = map f ys'" by simp_all
  from fxy have "g x = g y" by (rule assms(2))
  moreover from rest have "map g xs = map g ys'" by (rule Cons.IH)
  ultimately show ?case using ys by simp
qed

lemma columnDefinition_view:
  "column_view c = column_view c' \<Longrightarrow> columnDefinition c = columnDefinition c'"
  by (simp add: column_view_def columnDefinition_def)

lemma createTableStatement_view:
  assumes "table_view t = table_view t'"
  shows "createTableStatement t = createTableStatement t'"
proof -
  from assms have n: "table_name t = table_name t'"
    by (simp add: table_view_def)
  from assms have "map column_view (table_columns t) = map column_view (table_columns t')"
    by (simp add: table_view_def)
  then have "map columnDefinition (table_columns t) = map columnDefinition (table_columns t')"
    by (rule map_eq_through) (rule columnDefinition_view)
  with n show ?thesis by (simp add: createTableStatement_def)
qed

lemma addConstraintStatement_view:
  "relationship_view r = relationship_view r' \<Longrightarrow>
   addConstraintStatement r = addConstraintStatement r'"
  by (simp add: relationship_view_def addConstraintStatement_def constraintName_def)

lemma generateSQL_text_view:
  assumes "schema_view s = schema_view s'"
  shows "generateSQL_text s = generateSQL_text s'"
proof -
  from assms have "map table_view (tables s) = map table_view (tables s')"
    by (simp add: schema_view_def)
  then have a: "map createTableStatement (tables s) = map createTableStatement (tables s')"
    by (rule map_eq_through) (rule createTableStatement_view)
  from assms
  have "map relationship_view (relationships s) = map relationship_view (relationships s')"
    by (simp add: schema_view_def)
  then have "map addConstraintStatement (relationships s)
      = map addConstraintStatement (relationships s')"
    by (rule map_eq_through) (rule addConstraintStatement_view)
  with a show ?thesis by (simp add: generateSQL_text_phases)
qed

text \<open>
  Claim C2. \<open>generateSQL\<close> takes no options and no dialect; the text it writes is a
  function of \<open>currentSchema\<close> alone: two designer states with the same schema get the
  same text, whatever the output element held before and whatever the rest of the state
  is. It is even a function of the names, types and flags alone (not of ids or
  positions). Running it again changes nothing, and it never changes the schema.
\<close>

theorem generateSQL_deterministic:
  "(currentSchema d1 = currentSchema d2 \<longrightarrow>
      sqlOutput (generateSQL d1) = sqlOutput (generateSQL d2)) \<and>
   (schema_view (currentSchema d1) = schema_view (currentSchema d2) \<longrightarrow>
      sqlOutput (generateSQL d1) = sqlOutput (generateSQL d2)) \<and>
   generateSQL (generateSQL d1) = generateSQL d1 \<and>
   currentSchema (generateSQL d1) = currentSchema d1"
proof (intro conjI impI)
  assume "currentSchema d1 = currentSchema d2"
  then show "sqlOutput (generateSQL d1) = sqlOutput (generateSQL d2)"
    by (simp add: generateSQL_def)
next
  assume "schema_view (currentSchema d1) = schema_view (currentSchema d2)"
  then have "generateSQL_text (currentSchema d1) = generateSQL_text (currentSchema d2)"
    by (rule generateSQL_text_view)
  then show "sqlOutput (generateSQL d1) = sqlOutput (generateSQL d2)"
    by (simp add: generateSQL_def)
next
  show "generateSQL (generateSQL d1) = generateSQL d1"
    by (simp add: generateSQL_def)
next
  show "currentSchema (generateSQL d1) = currentSchema d1"
    by (simp add: generateSQL_def)
qed

lemma schema_view_cycleDesigner2:
  "schema_view (currentSchema cycleDesigner) = schema_view (currentSchema cycleDesigner2)"
  by (simp add: schema_view_def table_view_def column_view_def relationship_view_def
      cycleDesigner_def cycleDesigner2_def cycleSchema_def tableA_def tableB_def relAB_def relBA_def)

lemma cycleDesigner2_differs:
  "currentSchema cycleDesigner \<noteq> currentSchema cycleDesigner2"
  "sqlOutput cycleDesigner \<noteq> sqlOutput cycleDesigner2"
  by (simp_all add: cycleDesigner_def cycleDesigner2_def cycleSchema_def)

theorem generateSQL_deterministic_witness:
  "schema_view (currentSchema cycleDesigner) = schema_view (currentSchema cycleDesigner2) \<and>
   currentSchema cycleDesigner \<noteq> currentSchema cycleDesigner2 \<and>
   sqlOutput cycleDesigner \<noteq> sqlOutput cycleDesigner2 \<and>
   sqlOutput (generateSQL cycleDesigner) = sqlOutput (generateSQL cycleDesigner2)"
  using generateSQL_deterministic [of cycleDesigner cycleDesigner2] schema_view_cycleDesigner2
    cycleDesigner2_differs
  by blast

section \<open>Column definitions\<close>

lemma columnDefinition_eq:
  "columnDefinition c =
     ''  '' @ column_name c @ '' '' @ column_type c
       @ (if primaryKey c then '' PRIMARY KEY'' else if required c then '' NOT NULL'' else [])"
  by (simp add: columnDefinition_def)

lemma createTableStatement_eq:
  "createTableStatement t =
     ''CREATE TABLE '' @ table_name t @ '' (\<newline>''
       @ join (map columnDefinition (table_columns t)) '',\<newline>'' @ ''\<newline>);\<newline>\<newline>''"
  by (simp add: createTableStatement_def nl_def)

lemma sqlOutput_usersDesigner:
  "sqlOutput (generateSQL usersDesigner) =
     ''CREATE TABLE users (\<newline>  id INTEGER PRIMARY KEY,\<newline>  email VARCHAR(255) NOT NULL\<newline>);\<newline>\<newline>''"
  by (simp add: generateSQL_def generateSQL_text_def usersDesigner_def usersSchema_def
      usersTable_def createTableStatement_def columnDefinition_def nl_def)

lemma usersDesigner_includes:
  "str_includes (sqlOutput (generateSQL usersDesigner)) ''email VARCHAR(255) NOT NULL''"
  "\<not> str_includes (sqlOutput (generateSQL usersDesigner)) ''ALTER''"
  "\<not> str_includes (sqlOutput (generateSQL usersDesigner)) ''DROP''"
  unfolding sqlOutput_usersDesigner by code_simp+

text \<open>
  Claim C3, as stated, fails: the column \<open>email\<close> of the example is required and unique,
  and the text generated for it does not contain \<open>email VARCHAR(255) NOT NULL UNIQUE\<close>.
\<close>

theorem columnDefinition_unique_counterexample:
  "unique (table_columns usersTable ! 1) \<and> required (table_columns usersTable ! 1) \<and>
   column_name (table_columns usersTable ! 1) = ''email'' \<and>
   tables (currentSchema usersDesigner) = [usersTable] \<and>
   \<not> str_includes (sqlOutput (generateSQL usersDesigner))
       ''email VARCHAR(255) NOT NULL UNIQUE''"
proof -
  have "\<not> str_includes (sqlOutput (generateSQL usersDesigner))
       ''email VARCHAR(255) NOT NULL UNIQUE''"
    unfolding sqlOutput_usersDesigner by code_simp
  then show ?thesis
    by (simp add: usersTable_def usersDesigner_def usersSchema_def)
qed

text \<open>
  Claim C3, amended. Each column is rendered as two blanks, its name, a blank and its
  type, followed by \<open>PRIMARY KEY\<close> for a primary-key column and otherwise by \<open>NOT NULL\<close>
  for a required column; the flag \<open>unique\<close> changes nothing, and there is no DEFAULT or
  auto-increment text. A CREATE TABLE statement joins the column definitions with a
  comma and a line break. For the single table \<open>users\<close> the output is exactly the
  statement below: it contains \<open>email VARCHAR(255) NOT NULL\<close> and neither ALTER nor DROP.
\<close>

theorem columnDefinition_rendering:
  "columnDefinition c =
     ''  '' @ column_name c @ '' '' @ column_type c
       @ (if primaryKey c then '' PRIMARY KEY'' else if required c then '' NOT NULL'' else []) \<and>
   columnDefinition (c\<lparr>unique := u\<rparr>) = columnDefinition c \<and>
   createTableStatement t =
     ''CREATE TABLE '' @ table_name t @ '' (\<newline>''
       @ join (map columnDefinition (table_columns t)) '',\<newline>'' @ ''\<newline>);\<newline>\<newline>'' \<and>
   sqlOutput (generateSQL usersDesigner) =
     ''CREATE TABLE users (\<newline>  id INTEGER PRIMARY KEY,\<newline>  email VARCHAR(255) NOT NULL\<newline>);\<newline>\<newline>'' \<and>
   str_includes (sqlOutput (generateSQL usersDesigner)) ''email VARCHAR(255) NOT NULL'' \<and>
   \<not> str_includes (sqlOutput (generateSQL usersDesigner)) ''ALTER'' \<and>
   \<not> str_includes (sqlOutput (generateSQL usersDesigner)) ''DROP''"
proof -
  have "columnDefinition (c\<lparr>unique := u\<rparr>) = columnDefinition c"
    by (simp add: columnDefinition_def)
  with columnDefinition_eq [of c] createTableStatement_eq [of t] sqlOutput_usersDesigner
    usersDesigner_includes
  show ?thesis by blast
qed

section \<open>Constraint statements\<close>

lemma addConstraintStatement_eq:
  "addConstraintStatement r =
     ''ALTER TABLE '' @ targetTable r @ '' ADD CONSTRAINT fk_'' @ targetTable r @ ''_''
       @ sourceTable r @ '' FOREIGN KEY ('' @ targetColumn r @ '') REFERENCES ''
       @ sourceTable r @ ''('' @ sourceColumn r @ '');\<newline>\<newline>''"
  by (simp add: addConstraintStatement_def constraintName_def nl_def)

lemma sqlOutput_shopDesigner:
  "sqlOutput (generateSQL shopDesigner) =
     ''CREATE TABLE users (\<newline>  id INTEGER PRIMARY KEY,\<newline>  email VARCHAR(255) NOT NULL\<newline>);\<newline>\<newline>CREATE TABLE orders (\<newline>  id INTEGER PRIMARY KEY,\<newline>  user_id INTEGER NOT NULL\<newline>);\<newline>\<newline>ALTER TABLE orders ADD CONSTRAINT fk_orders_users FOREIGN KEY (user_id) REFERENCES users(id);\<newline>\<newline>''"
  by (simp add: generateSQL_def generateSQL_text_def shopDesigner_def shopSchema_def
      usersTable_def ordersTable_def userOrders_def createTableStatement_def
      addConstraintStatement_def constraintName_def columnDefinition_def nl_def)

text \<open>
  Claim C4, as stated, fails: the relationship of the example has \<open>onDelete\<close> and
  \<open>onUpdate\<close> CASCADE, and the generated text has no ON DELETE and no ON UPDATE in it.
\<close>

theorem addConstraintStatement_actions_counterexample:
  "relationships (currentSchema shopDesigner) = [userOrders] \<and>
   onDelete userOrders = Some ''CASCADE'' \<and> onUpdate userOrders = Some ''CASCADE'' \<and>
   \<not> str_includes (sqlOutput (generateSQL shopDesigner)) ''ON DELETE'' \<and>
   \<not> str_includes (sqlOutput (generateSQL shopDesigner)) ''ON UPDATE''"
proof -
  have "\<not> str_includes (sqlOutput (generateSQL shopDesigner)) ''ON DELETE''"
    "\<not> str_includes (sqlOutput (generateSQL shopDesigner)) ''ON UPDATE''"
    unfolding sqlOutput_shopDesigner by code_simp+
  then show ?thesis
    by (simp add: shopDesigner_def shopSchema_def userOrders_def)
qed

lemma relationshipsData_nth:
  "i < length rows \<Longrightarrow>
     rd_onDelete (relationshipsData rows ! i) = on_delete (rows ! i) \<and>
     rd_onUpdate (relationshipsData rows ! i) = on_update (rows ! i) \<and>
     targetTableName (relationshipsData rows ! i) = target_table_name (rows ! i) \<and>
     sourceTableName (relationshipsData rows ! i) = source_table_name (rows ! i)"
  by (simp add: relationshipsData_def)

text \<open>
  Claim C4, amended. The designer's \<open>generateSQL\<close> emits for each relationship the
  statement \<open>ALTER TABLE target ADD CONSTRAINT fk_target_source FOREIGN KEY
  (targetColumn) REFERENCES source(sourceColumn);\<close> and nothing else: the statement is
  the same whatever \<open>onDelete\<close> and \<open>onUpdate\<close> the relationship carries. The SQL route
  hands one relationship per row to the generator, with the row's \<open>on_delete\<close> and
  \<open>on_update\<close> unchanged, calls the generator with exactly these relationships, and
  answers with the SQL that the generator returns: a generator that returns the actions
  it is given makes the route answer with the actions of the rows.
\<close>

theorem addConstraintStatement_without_actions:
  "addConstraintStatement r =
     ''ALTER TABLE '' @ targetTable r @ '' ADD CONSTRAINT fk_'' @ targetTable r @ ''_''
       @ sourceTable r @ '' FOREIGN KEY ('' @ targetColumn r @ '') REFERENCES ''
       @ sourceTable r @ ''('' @ sourceColumn r @ '');\<newline>\<newline>'' \<and>
   addConstraintStatement (r\<lparr>onDelete := a, onUpdate := b\<rparr>) = addConstraintStatement r \<and>
   length (relationshipsData rows) = length rows \<and>
   (\<forall>i < length rows.
      rd_onDelete (relationshipsData rows ! i) = on_delete (rows ! i) \<and>
      rd_onUpdate (relationshipsData rows ! i) = on_update (rows ! i) \<and>
      targetTableName (relationshipsData rows ! i) = target_table_name (rows ! i) \<and>
      sourceTableName (relationshipsData rows ! i) = source_table_name (rows ! i)) \<and>
   sqlRoute gen schemaRow tableRows columnRows rows q =
     sqlRoute (\<lambda>d ts rs. gen d ts (relationshipsData rows)) schemaRow tableRows columnRows rows q \<and>
   (gen (routeDialect q) (tablesData tableRows columnRows) (relationshipsData rows)
        (routeOptions q) = Inr sql \<longrightarrow>
      sqlRoute gen (Some row) tableRows columnRows rows q
        = SqlSuccess sql (routeDialect q) (s_name row)) \<and>
   sqlRoute (\<lambda>dialect tbls rels opts. Inr (map (\<lambda>rel. (rd_onDelete rel, rd_onUpdate rel)) rels))
       (Some row) tableRows columnRows rows q
     = SqlSuccess (map (\<lambda>rel. (on_delete rel, on_update rel)) rows) (routeDialect q) (s_name row)"
proof -
  have "addConstraintStatement (r\<lparr>onDelete := a, onUpdate := b\<rparr>) = addConstraintStatement r"
    by (simp add: addConstraintStatement_def constraintName_def)
  moreover have "length (relationshipsData rows) = length rows"
    by (simp add: relationshipsData_def)
  moreover have "sqlRoute gen schemaRow tableRows columnRows rows q =
     sqlRoute (\<lambda>d ts rs. gen d ts (relationshipsData rows)) schemaRow tableRows columnRows rows q"
    by (simp add: sqlRoute_def)
  moreover have "gen (routeDialect q) (tablesData tableRows columnRows) (relationshipsData rows)
        (routeOptions q) = Inr sql \<longrightarrow>
      sqlRoute gen (Some row) tableRows columnRows rows q
        = SqlSuccess sql (routeDialect q) (s_name row)"
    by (simp add: sqlRoute_def)
  moreover have
    "sqlRoute (\<lambda>dialect tbls rels opts. Inr (map (\<lambda>rel. (rd_onDelete rel, rd_onUpdate rel)) rels))
       (Some row) tableRows columnRows rows q
     = SqlSuccess (map (\<lambda>rel. (on_delete rel, on_update rel)) rows) (routeDialect q) (s_name row)"
    by (simp add: sqlRoute_def relationshipsData_def comp_def)
  ultimately show ?thesis
    using addConstraintStatement_eq [of r] relationshipsData_nth [of _ rows] by blast
qed

theorem addConstraintStatement_without_actions_witness:
  "(0::nat) < length shopRelationshipRows \<and>
   on_delete (shopRelationshipRows ! 0) = Some ''CASCADE'' \<and>
   rd_onDelete (relationshipsData shopRelationshipRows ! 0) = Some ''CASCADE'' \<and>
   rd_onUpdate (relationshipsData shopRelationshipRows ! 0) = Some ''CASCADE'' \<and>
   targetTableName (relationshipsData shopRelationshipRows ! 0) = ''orders'' \<and>
   addConstraintStatement userOrders =
     ''ALTER TABLE orders ADD CONSTRAINT fk_orders_users FOREIGN KEY (user_id) REFERENCES users(id);\<newline>\<newline>'' \<and>
   sqlRoute (\<lambda>dialect tbls rels opts. Inr (dialect, map td_name tbls, map rd_onDelete rels))
       (Some shopSchemaRow) shopTableRows shopColumnRows shopRelationshipRows dropQuery
     = SqlSuccess (''postgresql'', [''orders'', ''users''], [Some ''CASCADE''])
         ''postgresql'' ''Shop'' \<and>
   sqlRoute (\<lambda>dialect tbls rels opts. Inr (map (\<lambda>rel. (rd_onDelete rel, rd_onUpdate rel)) rels))
       (Some shopSchemaRow) shopTableRows shopColumnRows shopRelationshipRows dropQuery
     = SqlSuccess [(Some ''CASCADE'', Some ''CASCADE'')] ''postgresql'' ''Shop''"
proof -
  note t = addConstraintStatement_without_actions
             [where r = userOrders and a = None and b = None and rows = shopRelationshipRows
                and gen = "\<lambda>dialect tbls rels opts.
                             Inr (dialect, map td_name tbls, map rd_onDelete rels)"
                and q = dropQuery and tableRows = shopTableRows and columnRows = shopColumnRows
                and sql = "(''postgresql'', [''orders'', ''users''], [Some ''CASCADE''])"
                and row = shopSchemaRow]
  have len: "(0::nat) < length shopRelationshipRows"
    by (simp add: shopRelationshipRows_def)
  from t have "\<forall>i < length shopRelationshipRows.
      rd_onDelete (relationshipsData shopRelationshipRows ! i) = on_delete (shopRelationshipRows ! i) \<and>
      rd_onUpdate (relationshipsData shopRelationshipRows ! i) = on_update (shopRelationshipRows ! i) \<and>
      targetTableName (relationshipsData shopRelationshipRows ! i)
        = target_table_name (shopRelationshipRows ! i) \<and>
      sourceTableName (relationshipsData shopRelationshipRows ! i)
        = source_table_name (shopRelationshipRows ! i)"
    by blast
  with len have
    "rd_onDelete (relationshipsData shopRelationshipRows ! 0) = on_delete (shopRelationshipRows ! 0)"
    "rd_onUpdate (relationshipsData shopRelationshipRows ! 0) = on_update (shopRelationshipRows ! 0)"
    "targetTableName (relationshipsData shopRelationshipRows ! 0)
       = target_table_name (shopRelationshipRows ! 0)"
    by blast+
  moreover have "on_delete (shopRelationshipRows ! 0) = Some ''CASCADE''"
    "on_update (shopRelationshipRows ! 0) = Some ''CASCADE''"
    "target_table_name (shopRelationshipRows ! 0) = ''orders''"
    by (simp_all add: shopRelationshipRows_def)
  moreover from t have "addConstraintStatement userOrders =
     ''ALTER TABLE '' @ targetTable userOrders @ '' ADD CONSTRAINT fk_'' @ targetTable userOrders
       @ ''_'' @ sourceTable userOrders @ '' FOREIGN KEY ('' @ targetColumn userOrders
       @ '') REFERENCES '' @ sourceTable userOrders @ ''('' @ sourceColumn userOrders
       @ '');\<newline>\<newline>''"
    by blast
  then have "addConstraintStatement userOrders =
     ''ALTER TABLE orders ADD CONSTRAINT fk_orders_users FOREIGN KEY (user_id) REFERENCES users(id);\<newline>\<newline>''"
    by (simp add: userOrders_def)
  moreover have g: "(\<lambda>dialect tbls rels opts. Inr (dialect, map td_name tbls, map rd_onDelete rels))
        (routeDialect dropQuery) (tablesData shopTableRows shopColumnRows)
        (relationshipsData shopRelationshipRows) (routeOptions dropQuery)
      = (Inr (''postgresql'', [''orders'', ''users''], [Some ''CASCADE''])
          :: string + string \<times> string list \<times> string option list)"
    by (simp add: routeDialect_def dropQuery_def tablesData_def shopTableRows_def
        relationshipsData_def shopRelationshipRows_def)
  from t [THEN conjunct2, THEN conjunct2, THEN conjunct2, THEN conjunct2, THEN conjunct2,
          THEN conjunct1] g
  have
    "sqlRoute (\<lambda>dialect tbls rels opts. Inr (dialect, map td_name tbls, map rd_onDelete rels))
       (Some shopSchemaRow) shopTableRows shopColumnRows shopRelationshipRows dropQuery
     = SqlSuccess (''postgresql'', [''orders'', ''users''], [Some ''CASCADE''])
         (routeDialect dropQuery) (s_name shopSchemaRow)"
    by simp
  then have
    "sqlRoute (\<lambda>dialect tbls rels opts. Inr (dialect, map td_name tbls, map rd_onDelete rels))
       (Some shopSchemaRow) shopTableRows shopColumnRows shopRelationshipRows dropQuery
     = SqlSuccess (''postgresql'', [''orders'', ''users''], [Some ''CASCADE''])
         ''postgresql'' ''Shop''"
    by (simp add: routeDialect_def dropQuery_def shopSchemaRow_def)
  moreover from t have
    "sqlRoute (\<lambda>dialect tbls rels opts. Inr (map (\<lambda>rel. (rd_onDelete rel, rd_onUpdate rel)) rels))
       (Some shopSchemaRow) shopTableRows shopColumnRows shopRelationshipRows dropQuery
     = SqlSuccess (map (\<lambda>rel. (on_delete rel, on_update rel)) shopRelationshipRows)
         (routeDialect dropQuery) (s_name shopSchemaRow)"
    by blast
  then have
    "sqlRoute (\<lambda>dialect tbls rels opts. Inr (map (\<lambda>rel. (rd_onDelete rel, rd_onUpdate rel)) rels))
       (Some shopSchemaRow) shopTableRows shopColumnRows shopRelationshipRows dropQuery
     = SqlSuccess [(Some ''CASCADE'', Some ''CASCADE'')] ''postgresql'' ''Shop''"
    by (simp add: routeDialect_def dropQuery_def shopSchemaRow_def shopRelationshipRows_def)
  ultimately show ?thesis using len by simp
qed

section \<open>Constraint names\<close>

text \<open>
  Claim C5, as stated, fails: two relationships between the same two tables get the same
  constraint name, and both statements of the output carry it.
\<close>

theorem constraintName_distinct_counterexample:
  "relationships twoLinksSchema = [userOrders, orderApprover] \<and>
   userOrders \<noteq> orderApprover \<and>
   constraintName userOrders = ''fk_orders_users'' \<and>
   constraintName orderApprover = ''fk_orders_users'' \<and>
   \<not> distinct (map constraintName (relationships twoLinksSchema)) \<and>
   generateSQL_text twoLinksSchema =
     ''CREATE TABLE users (\<newline>  id INTEGER PRIMARY KEY,\<newline>  email VARCHAR(255) NOT NULL\<newline>);\<newline>\<newline>CREATE TABLE orders (\<newline>  id INTEGER PRIMARY KEY,\<newline>  user_id INTEGER NOT NULL\<newline>);\<newline>\<newline>ALTER TABLE orders ADD CONSTRAINT fk_orders_users FOREIGN KEY (user_id) REFERENCES users(id);\<newline>\<newline>ALTER TABLE orders ADD CONSTRAINT fk_orders_users FOREIGN KEY (approved_by) REFERENCES users(id);\<newline>\<newline>''"
  by (simp add: twoLinksSchema_def shopSchema_def userOrders_def orderApprover_def
      constraintName_def generateSQL_text_def usersTable_def ordersTable_def
      createTableStatement_def addConstraintStatement_def columnDefinition_def nl_def)

text \<open>
  Claim C5, amended. Every constraint is named \<open>fk_\<close>, the target table, \<open>_\<close>, the source
  table, and that name stands after ADD CONSTRAINT in the statement of the relationship.
  No suffix is added: relationships between the same target and source table get the
  same name.
\<close>

theorem constraintName_from_table_pair:
  "constraintName r = ''fk_'' @ targetTable r @ ''_'' @ sourceTable r \<and>
   addConstraintStatement r =
     ''ALTER TABLE '' @ targetTable r @ '' ADD CONSTRAINT '' @ constraintName r
       @ '' FOREIGN KEY ('' @ targetColumn r @ '') REFERENCES '' @ sourceTable r
       @ ''('' @ sourceColumn r @ '');\<newline>\<newline>'' \<and>
   (targetTable r = targetTable r' \<and> sourceTable r = sourceTable r' \<longrightarrow>
      constraintName r = constraintName r')"
  by (simp add: constraintName_def addConstraintStatement_def nl_def)

theorem constraintName_from_table_pair_witness:
  "targetTable userOrders = targetTable orderApprover \<and>
   sourceTable userOrders = sourceTable orderApprover \<and>
   targetColumn userOrders \<noteq> targetColumn orderApprover \<and>
   constraintName userOrders = constraintName orderApprover"
proof -
  have same: "targetTable userOrders = targetTable orderApprover"
    "sourceTable userOrders = sourceTable orderApprover"
    and other: "targetColumn userOrders \<noteq> targetColumn orderApprover"
    by (simp_all add: userOrders_def orderApprover_def)
  with constraintName_from_table_pair [of userOrders orderApprover]
  have "constraintName userOrders = constraintName orderApprover" by blast
  with same other show ?thesis by blast
qed

section \<open>The DROP phase of the specification's emitter\<close>

lemma phase_order:
  assumes "\<forall>a \<in> set as. P a" "\<forall>b \<in> set bs. \<not> P b"
    and "i < length (as @ bs)" "j < length (as @ bs)"
    and "P ((as @ bs) ! i)" "\<not> P ((as @ bs) ! j)"
  shows "i < j"
proof -
  have "i < length as"
  proof (rule ccontr)
    assume "\<not> i < length as"
    with assms(3) have "(as @ bs) ! i \<in> set bs" by (simp add: nth_append)
    with assms(2,5) show False by blast
  qed
  moreover have "length as \<le> j"
  proof (rule ccontr)
    assume "\<not> length as \<le> j"
    then have "(as @ bs) ! j \<in> set as" by (simp add: nth_append)
    with assms(1,6) show False by blast
  qed
  ultimately show ?thesis by simp
qed

lemma constraintDrops_kind: "s \<in> set (constraintDrops opts rels) \<Longrightarrow> isConstraintDrop s"
  by (auto simp: constraintDrops_def split: if_splits)

lemma tableDrops_kind: "s \<in> set (tableDrops dropOrder tbls rels) \<Longrightarrow> isTableDrop s"
  by (auto simp: tableDrops_def)

lemma createPhase_kind: "s \<in> set (createPhase tbls) \<Longrightarrow> \<not> isDrop s"
  by (auto simp: createPhase_def isDrop_def)

lemma constraintPhase_kind: "s \<in> set (constraintPhase opts rels) \<Longrightarrow> \<not> isDrop s"
  by (auto simp: constraintPhase_def isDrop_def split: if_splits)

lemma indexPhase_kind: "s \<in> set (indexPhase opts tbls rels) \<Longrightarrow> \<not> isDrop s"
  by (auto simp: indexPhase_def isDrop_def split: if_splits)

lemma isTableDrop_not_constraint: "isTableDrop s \<Longrightarrow> \<not> isConstraintDrop s"
  by (cases s) simp_all

text \<open>
  Claim C6. With \<open>includeDropStatements\<close> and a known dialect the emitter succeeds, and
  its output is the drops of the constraints, then the drops of the tables, then the
  CREATE, CONSTRAINT and INDEX statements: every drop statement stands before every
  other statement, and every drop of a constraint before every drop of a table. The SQL
  route sets the option exactly when the query parameter is the string \<open>true\<close>.
\<close>

theorem emit_drop_phase_first:
  assumes "includeDropStatements opts" and "dialect \<in> set knownDialects"
  shows "\<exists>out. emit dropOrder dialect tbls rels opts = Inr out \<and>
     out = (constraintDrops opts rels @ tableDrops dropOrder tbls rels)
             @ (createPhase tbls @ constraintPhase opts rels @ indexPhase opts tbls rels) \<and>
     (\<forall>s \<in> set (constraintDrops opts rels). isConstraintDrop s) \<and>
     (\<forall>s \<in> set (tableDrops dropOrder tbls rels). isTableDrop s) \<and>
     (\<forall>i j. i < length out \<and> j < length out \<and> isDrop (out ! i) \<and> \<not> isDrop (out ! j)
        \<longrightarrow> i < j) \<and>
     (\<forall>i j. i < length out \<and> j < length out \<and> isConstraintDrop (out ! i) \<and>
        isTableDrop (out ! j) \<longrightarrow> i < j) \<and>
     (includeDropStatements (routeOptions q) \<longleftrightarrow> q_includeDropStatements q = Some ''true'')"
proof -
  let ?cd = "constraintDrops opts rels" and ?td = "tableDrops dropOrder tbls rels"
  let ?rest = "createPhase tbls @ constraintPhase opts rels @ indexPhase opts tbls rels"
  let ?out = "(?cd @ ?td) @ ?rest"
  have out: "emit dropOrder dialect tbls rels opts = Inr ?out"
    using assms by (simp add: emit_def dropPhase_def)
  have drops: "\<forall>s \<in> set (?cd @ ?td). isDrop s"
    by (auto simp: isDrop_def dest: constraintDrops_kind tableDrops_kind)
  have rest: "\<forall>s \<in> set ?rest. \<not> isDrop s"
    by (auto dest: createPhase_kind constraintPhase_kind indexPhase_kind)
  have a: "i < j" if "i < length ?out" "j < length ?out" "isDrop (?out ! i)" "\<not> isDrop (?out ! j)"
    for i j
    using drops rest that by (rule phase_order)
  have cds: "\<forall>s \<in> set ?cd. isConstraintDrop s"
    by (auto dest: constraintDrops_kind)
  have others: "\<forall>s \<in> set (?td @ ?rest). \<not> isConstraintDrop s"
  proof
    fix s assume "s \<in> set (?td @ ?rest)"
    then consider "s \<in> set ?td" | "s \<in> set ?rest" by auto
    then show "\<not> isConstraintDrop s"
    proof cases
      case 1
      then show ?thesis by (auto dest: tableDrops_kind isTableDrop_not_constraint)
    next
      case 2
      with rest show ?thesis by (auto simp: isDrop_def)
    qed
  qed
  have b: "i < j" if "i < length ?out" "j < length ?out" "isConstraintDrop (?out ! i)"
      "isTableDrop (?out ! j)" for i j
  proof -
    have eq: "?out = ?cd @ (?td @ ?rest)" by simp
    from that(4) have "\<not> isConstraintDrop (?out ! j)" by (rule isTableDrop_not_constraint)
    with that(1,2,3) cds others show ?thesis unfolding eq by (rule_tac phase_order) 
  qed
  have c: "includeDropStatements (routeOptions q) \<longleftrightarrow> q_includeDropStatements q = Some ''true''"
    by (simp add: routeOptions_def)
  from out a b c show ?thesis
    using constraintDrops_kind tableDrops_kind by blast
qed


lemma dropQuery_emit:
  "case emit reverseOrder (routeDialect dropQuery) (tablesData shopTableRows shopColumnRows)
          (relationshipsData shopRelationshipRows) (routeOptions dropQuery) of
     Inl e \<Rightarrow> False
   | Inr out \<Rightarrow> length out = 7 \<and> isConstraintDrop (out ! 0) \<and> isTableDrop (out ! 1) \<and>
       isTableDrop (out ! 2) \<and> \<not> isDrop (out ! 3) \<and> out ! 6 = CreateIndex ''orders'' ''user_id''"
  by code_simp

theorem emit_drop_phase_first_witness:
  "includeDropStatements (routeOptions dropQuery) \<and>
   routeDialect dropQuery \<in> set knownDialects \<and>
   (\<exists>out. emit reverseOrder (routeDialect dropQuery) (tablesData shopTableRows shopColumnRows)
            (relationshipsData shopRelationshipRows) (routeOptions dropQuery) = Inr out \<and>
      length out = 7 \<and> isConstraintDrop (out ! 0) \<and> isTableDrop (out ! 1) \<and>
      isTableDrop (out ! 2) \<and> \<not> isDrop (out ! 3) \<and> (0::nat) < 1 \<and> (2::nat) < 3)"
proof -
  have h1: "includeDropStatements (routeOptions dropQuery)"
    by (simp add: routeOptions_def dropQuery_def)
  have h2: "routeDialect dropQuery \<in> set knownDialects"
    by (simp add: routeDialect_def dropQuery_def knownDialects_def)
  from emit_drop_phase_first [OF h1 h2, of reverseOrder "tablesData shopTableRows shopColumnRows"
      "relationshipsData shopRelationshipRows" dropQuery]
  obtain out where out: "emit reverseOrder (routeDialect dropQuery)
        (tablesData shopTableRows shopColumnRows)
        (relationshipsData shopRelationshipRows) (routeOptions dropQuery) = Inr out"
    and d: "\<forall>i j. i < length out \<and> j < length out \<and> isDrop (out ! i) \<and> \<not> isDrop (out ! j)
        \<longrightarrow> i < j"
    and c: "\<forall>i j. i < length out \<and> j < length out \<and> isConstraintDrop (out ! i) \<and>
        isTableDrop (out ! j) \<longrightarrow> i < j"
    by blast
  from dropQuery_emit out
  have e: "length out = 7" "isConstraintDrop (out ! 0)" "isTableDrop (out ! 1)"
    "isTableDrop (out ! 2)" "\<not> isDrop (out ! 3)"
    by simp_all
  from c e have "(0::nat) < 1" by simp
  moreover from d e have "(2::nat) < 3" by simp
  ultimately show ?thesis using h1 h2 out e by blast
qed

section \<open>Dialects outside the list\<close>

lemma encodeURIComponent_allowed:
  "d \<in> set allowedDialects \<Longrightarrow> encodeURIComponent d = d"
  by (auto simp: allowedDialects_def encodeURIComponent_def unreserved_def)

lemma requestQuery_unknown:
  "d \<notin> set allowedDialects \<Longrightarrow>
     requestQuery (options\<lparr>opt_dialect := Some d\<rparr>) = requestQuery (options\<lparr>opt_dialect := None\<rparr>)"
  by (simp add: requestQuery_def validateSQLOptions_def sanitizeParams_def toQuery_def)

lemma requestQuery_allowed:
  "d \<in> set allowedDialects \<Longrightarrow>
     q_dialect (requestQuery (options\<lparr>opt_dialect := Some d\<rparr>)) = Some d"
proof -
  assume a: "d \<in> set allowedDialects"
  then have "d \<noteq> []" by (auto simp: allowedDialects_def)
  with a show ?thesis
    by (simp add: requestQuery_def validateSQLOptions_def sanitizeParams_def toQuery_def
        encodeURIComponent_allowed)
qed

lemma requestQuery_flags:
  "q_includeDropStatements (requestQuery (options\<lparr>opt_dialect := x\<rparr>))
     = q_includeDropStatements (requestQuery options)"
  "q_includeComments (requestQuery (options\<lparr>opt_dialect := x\<rparr>))
     = q_includeComments (requestQuery options)"
  by (simp_all add: requestQuery_def validateSQLOptions_def sanitizeParams_def toQuery_def)

lemma sqlRoute_cong:
  "routeDialect q = routeDialect q' \<Longrightarrow> routeOptions q = routeOptions q' \<Longrightarrow>
     sqlRoute gen s t c r q = sqlRoute gen s t c r q'"
  by (simp add: sqlRoute_def split: sum.splits option.splits)

text \<open>
  Claim C8, as stated, fails: for the dialect \<open>oracle\<close> the API client sends a request
  without a dialect, the route takes \<open>mysql\<close>, and SQL is produced even by a generator
  that rejects every unknown dialect.
\<close>

theorem unsupported_dialect_counterexample:
  "opt_dialect oracleOptions = Some ''oracle'' \<and>
   ''oracle'' \<notin> set allowedDialects \<and>
   q_dialect (requestQuery oracleOptions) = None \<and>
   routeDialect (requestQuery oracleOptions) = ''mysql'' \<and>
   (case apiGenerateSQL (specGenerator reverseOrder) (Some shopSchemaRow) shopTableRows
           shopColumnRows shopRelationshipRows oracleOptions of
      SqlSuccess sql dialect name \<Rightarrow> dialect = ''mysql'' \<and> length sql = 7
    | SqlFailure status code msg \<Rightarrow> False)"
proof -
  have "case apiGenerateSQL (specGenerator reverseOrder) (Some shopSchemaRow) shopTableRows
           shopColumnRows shopRelationshipRows oracleOptions of
      SqlSuccess sql dialect name \<Rightarrow> dialect = ''mysql'' \<and> length sql = 7
    | SqlFailure status code msg \<Rightarrow> False"
    by code_simp
  moreover have "q_dialect (requestQuery oracleOptions) = None"
    "routeDialect (requestQuery oracleOptions) = ''mysql''"
    by (simp_all add: requestQuery_def validateSQLOptions_def sanitizeParams_def toQuery_def
        oracleOptions_def allowedDialects_def routeDialect_def)
  ultimately show ?thesis
    by (simp add: oracleOptions_def allowedDialects_def)
qed

text \<open>
  Claim C8, amended. A dialect outside the list never reaches the generator through the
  API client: \<open>validateSQLOptions\<close> drops it without an error, the request is the one
  without a dialect, the route takes its default \<open>mysql\<close> and calls the generator for
  \<open>mysql\<close>, and the answer carries the SQL that the generator returns for \<open>mysql\<close>, as
  for a request for \<open>mysql\<close>. A dialect of the list is passed on to the generator as it
  is.
\<close>

theorem unknown_dialect_falls_back_to_default:
  "(d \<notin> set allowedDialects \<longrightarrow>
      opt_dialect (validateSQLOptions (options\<lparr>opt_dialect := Some d\<rparr>)) = None \<and>
      requestQuery (options\<lparr>opt_dialect := Some d\<rparr>)
        = requestQuery (options\<lparr>opt_dialect := None\<rparr>) \<and>
      routeDialect (requestQuery (options\<lparr>opt_dialect := Some d\<rparr>)) = ''mysql'' \<and>
      apiGenerateSQL gen s t c r (options\<lparr>opt_dialect := Some d\<rparr>)
        = apiGenerateSQL gen s t c r (options\<lparr>opt_dialect := Some ''mysql''\<rparr>) \<and>
      (gen ''mysql'' (tablesData t c) (relationshipsData r) (routeOptions (requestQuery options))
         = Inr sql \<longrightarrow>
       apiGenerateSQL gen (Some row) t c r (options\<lparr>opt_dialect := Some d\<rparr>)
         = SqlSuccess sql ''mysql'' (s_name row))) \<and>
   (d \<in> set allowedDialects \<longrightarrow>
      routeDialect (requestQuery (options\<lparr>opt_dialect := Some d\<rparr>)) = d \<and>
      (gen d (tablesData t c) (relationshipsData r) (routeOptions (requestQuery options))
         = Inr sql \<longrightarrow>
       apiGenerateSQL gen (Some row) t c r (options\<lparr>opt_dialect := Some d\<rparr>)
         = SqlSuccess sql d (s_name row))) \<and>
   apiGenerateSQL (\<lambda>dialect tbls rels opts. Inr dialect) (Some row) t c r
       (options\<lparr>opt_dialect := Some d\<rparr>)
     = SqlSuccess (if d \<in> set allowedDialects then d else ''mysql'')
         (if d \<in> set allowedDialects then d else ''mysql'') (s_name row)"
proof -
  have opts: "routeOptions (requestQuery (options\<lparr>opt_dialect := x\<rparr>))
      = routeOptions (requestQuery options)" for x
    by (simp add: routeOptions_def requestQuery_flags)
  have unknown: "routeDialect (requestQuery (options\<lparr>opt_dialect := Some d\<rparr>)) = ''mysql''"
    if d: "d \<notin> set allowedDialects"
  proof -
    have "q_dialect (requestQuery (options\<lparr>opt_dialect := None\<rparr>)) = None"
      by (simp add: requestQuery_def validateSQLOptions_def sanitizeParams_def toQuery_def)
    with requestQuery_unknown [OF d, of options] show ?thesis
      by (simp add: routeDialect_def)
  qed
  have allowed: "routeDialect (requestQuery (options\<lparr>opt_dialect := Some d\<rparr>)) = d"
    if d: "d \<in> set allowedDialects" for d
    using requestQuery_allowed [OF d, of options] by (simp add: routeDialect_def)
  have success: "apiGenerateSQL g (Some row) t c r (options\<lparr>opt_dialect := Some d\<rparr>)
      = SqlSuccess out x (s_name row)"
    if "routeDialect (requestQuery (options\<lparr>opt_dialect := Some d\<rparr>)) = x"
      and "g x (tablesData t c) (relationshipsData r) (routeOptions (requestQuery options))
             = Inr out"
    for g :: "'b generator" and out x
    using that by (simp add: apiGenerateSQL_def sqlRoute_def opts)
  show ?thesis
  proof (intro conjI impI)
    assume d: "d \<notin> set allowedDialects"
    then show "opt_dialect (validateSQLOptions (options\<lparr>opt_dialect := Some d\<rparr>)) = None"
      by (simp add: validateSQLOptions_def)
    from d show "requestQuery (options\<lparr>opt_dialect := Some d\<rparr>)
          = requestQuery (options\<lparr>opt_dialect := None\<rparr>)"
      by (rule requestQuery_unknown)
    from d show m: "routeDialect (requestQuery (options\<lparr>opt_dialect := Some d\<rparr>)) = ''mysql''"
      by (rule unknown)
    have "''mysql'' \<in> set allowedDialects" by (simp add: allowedDialects_def)
    then have "routeDialect (requestQuery (options\<lparr>opt_dialect := Some ''mysql''\<rparr>)) = ''mysql''"
      by (rule allowed)
    with m have "routeDialect (requestQuery (options\<lparr>opt_dialect := Some d\<rparr>))
        = routeDialect (requestQuery (options\<lparr>opt_dialect := Some ''mysql''\<rparr>))"
      by simp
    moreover have "routeOptions (requestQuery (options\<lparr>opt_dialect := Some d\<rparr>))
        = routeOptions (requestQuery (options\<lparr>opt_dialect := Some ''mysql''\<rparr>))"
      by (simp add: opts)
    ultimately show "apiGenerateSQL gen s t c r (options\<lparr>opt_dialect := Some d\<rparr>)
          = apiGenerateSQL gen s t c r (options\<lparr>opt_dialect := Some ''mysql''\<rparr>)"
      unfolding apiGenerateSQL_def by (rule sqlRoute_cong)
    assume "gen ''mysql'' (tablesData t c) (relationshipsData r)
        (routeOptions (requestQuery options)) = Inr sql"
    with m show "apiGenerateSQL gen (Some row) t c r (options\<lparr>opt_dialect := Some d\<rparr>)
         = SqlSuccess sql ''mysql'' (s_name row)"
      by (rule success)
  next
    assume d: "d \<in> set allowedDialects"
    then show m: "routeDialect (requestQuery (options\<lparr>opt_dialect := Some d\<rparr>)) = d"
      by (rule allowed)
    assume "gen d (tablesData t c) (relationshipsData r)
        (routeOptions (requestQuery options)) = Inr sql"
    with m show "apiGenerateSQL gen (Some row) t c r (options\<lparr>opt_dialect := Some d\<rparr>)
         = SqlSuccess sql d (s_name row)"
      by (rule success)
  next
    let ?x = "if d \<in> set allowedDialects then d else ''mysql''"
    have "routeDialect (requestQuery (options\<lparr>opt_dialect := Some d\<rparr>)) = ?x"
      by (simp add: unknown allowed)
    moreover have "(\<lambda>dialect tbls rels opts. Inr dialect) ?x (tablesData t c)
        (relationshipsData r) (routeOptions (requestQuery options))
      = (Inr ?x :: string + string)"
      by simp
    ultimately show
      "apiGenerateSQL (\<lambda>dialect tbls rels opts. Inr dialect) (Some row) t c r
         (options\<lparr>opt_dialect := Some d\<rparr>)
       = SqlSuccess ?x ?x (s_name row)"
      by (rule success)
  qed
qed

theorem unknown_dialect_falls_back_to_default_witness:
  "''oracle'' \<notin> set allowedDialects \<and> ''sqlite'' \<in> set allowedDialects \<and>
   routeDialect (requestQuery (oracleOptions\<lparr>opt_dialect := Some ''oracle''\<rparr>)) = ''mysql'' \<and>
   routeDialect (requestQuery (oracleOptions\<lparr>opt_dialect := Some ''sqlite''\<rparr>)) = ''sqlite'' \<and>
   apiGenerateSQL (\<lambda>dialect tbls rels opts. Inr (dialect, map td_name tbls))
       (Some shopSchemaRow) shopTableRows shopColumnRows shopRelationshipRows
       (oracleOptions\<lparr>opt_dialect := Some ''oracle''\<rparr>)
     = SqlSuccess (''mysql'', [''orders'', ''users'']) ''mysql'' ''Shop'' \<and>
   apiGenerateSQL (\<lambda>dialect tbls rels opts. Inr (dialect, map td_name tbls))
       (Some shopSchemaRow) shopTableRows shopColumnRows shopRelationshipRows
       (oracleOptions\<lparr>opt_dialect := Some ''sqlite''\<rparr>)
     = SqlSuccess (''sqlite'', [''orders'', ''users'']) ''sqlite'' ''Shop''"
proof -
  have a: "''oracle'' \<notin> set allowedDialects" and b: "''sqlite'' \<in> set allowedDialects"
    by (simp_all add: allowedDialects_def)
  have names: "map td_name (tablesData shopTableRows shopColumnRows) = [''orders'', ''users'']"
    by (simp add: tablesData_def shopTableRows_def)
  note t1 = unknown_dialect_falls_back_to_default
     [where d = "''oracle''" and options = oracleOptions
        and gen = "\<lambda>dialect tbls rels opts. Inr (dialect, map td_name tbls)"
        and t = shopTableRows and c = shopColumnRows and r = shopRelationshipRows
        and sql = "(''mysql'', [''orders'', ''users''])" and row = shopSchemaRow]
  note t2 = unknown_dialect_falls_back_to_default
     [where d = "''sqlite''" and options = oracleOptions
        and gen = "\<lambda>dialect tbls rels opts. Inr (dialect, map td_name tbls)"
        and t = shopTableRows and c = shopColumnRows and r = shopRelationshipRows
        and sql = "(''sqlite'', [''orders'', ''users''])" and row = shopSchemaRow]
  have g: "(\<lambda>dialect tbls rels opts. Inr (dialect, map td_name tbls)) x
        (tablesData shopTableRows shopColumnRows) (relationshipsData shopRelationshipRows)
        (routeOptions (requestQuery oracleOptions))
      = (Inr (x, [''orders'', ''users'']) :: string + string \<times> string list)" for x
    by (simp add: names)
  note c1 = t1 [THEN conjunct1, THEN mp, OF a]
  note c2 = t2 [THEN conjunct2, THEN conjunct1, THEN mp, OF b]
  have u1: "routeDialect (requestQuery (oracleOptions\<lparr>opt_dialect := Some ''oracle''\<rparr>)) = ''mysql''"
    by (rule c1 [THEN conjunct2, THEN conjunct2, THEN conjunct1])
  have u2: "apiGenerateSQL (\<lambda>dialect tbls rels opts. Inr (dialect, map td_name tbls))
       (Some shopSchemaRow) shopTableRows shopColumnRows shopRelationshipRows
       (oracleOptions\<lparr>opt_dialect := Some ''oracle''\<rparr>)
     = SqlSuccess (''mysql'', [''orders'', ''users'']) ''mysql'' (s_name shopSchemaRow)"
    by (rule c1 [THEN conjunct2, THEN conjunct2, THEN conjunct2, THEN conjunct2, THEN mp])
      (rule g)
  have v1: "routeDialect (requestQuery (oracleOptions\<lparr>opt_dialect := Some ''sqlite''\<rparr>)) = ''sqlite''"
    by (rule c2 [THEN conjunct1])
  have v2: "apiGenerateSQL (\<lambda>dialect tbls rels opts. Inr (dialect, map td_name tbls))
       (Some shopSchemaRow) shopTableRows shopColumnRows shopRelationshipRows
       (oracleOptions\<lparr>opt_dialect := Some ''sqlite''\<rparr>)
     = SqlSuccess (''sqlite'', [''orders'', ''users'']) ''sqlite'' (s_name shopSchemaRow)"
    by (rule c2 [THEN conjunct2, THEN mp]) (rule g)
  have n: "s_name shopSchemaRow = ''Shop''" by (simp add: shopSchemaRow_def)
  from a b u1 u2 v1 v2 show ?thesis unfolding n by blast
qed

section \<open>The validation middleware reports every defect\<close>



lemma validate_joiValidate:
  assumes "schemas schemaName = Some sch"
  shows "validate joiValidate schemas schemaName source req =
     (if defects sch (if source = ''query'' then query req else body req) \<noteq> []
      then Respond 400 ''VALIDATION_ERROR'' ''Validation failed''
             (validationErrors (defects sch (if source = ''query'' then query req else body req)))
      else Next (if source = ''query''
                 then req\<lparr>query := defaults sch (query req)\<rparr>
                 else req\<lparr>body := defaults sch (body req)\<rparr>))"
  using assms by (simp add: validate_def joiValidate_def)




section \<open>Table names within a schema\<close>

lemma insertTable_unique:
  assumes "insertTable row db = Some db'" "uniqueTables db"
  shows "uniqueTables db'"
proof -
  from assms(1) have new: "db' = db\<lparr>db_tables := db_tables db @ [row]\<rparr>"
    and id: "\<not> list_ex (\<lambda>t. t_id t = t_id row) (db_tables db)"
    and key: "\<not> list_ex (\<lambda>t. t_schema_id t = t_schema_id row \<and> t_name t = t_name row) (db_tables db)"
    by (auto simp: insertTable_def split: if_splits)
  from id have "t_id row \<notin> set (map t_id (db_tables db))"
    by (auto simp: list_ex_iff)
  moreover from key have "(t_schema_id row, t_name row) \<notin> set (tableKeys db)"
    by (auto simp: list_ex_iff tableKeys_def)
  ultimately show ?thesis
    using assms(2) new by (simp add: uniqueTables_def tableKeys_def)
qed

lemma insertColumn_tables:
  "insertColumn row db = Some db' \<Longrightarrow> db_tables db' = db_tables db"
  by (auto simp: insertColumn_def split: if_splits)

lemma uniqueTables_cong:
  "db_tables db' = db_tables db \<Longrightarrow> uniqueTables db' = uniqueTables db"
  by (simp add: uniqueTables_def tableKeys_def)

lemma createTable_unique:
  assumes "uniqueTables db"
  shows "uniqueTables (snd (createTable tableId columnId schemaId name description db))"
proof (cases "find (\<lambda>t. t_schema_id t = schemaId \<and> t_name t = name) (db_tables db)")
  case (Some a)
  with assms show ?thesis by (simp add: createTable_def)
next
  case None
  let ?row = "\<lparr>t_id = tableId, t_schema_id = schemaId, t_name = name,
                t_description = Some (case description of None \<Rightarrow> [] | Some d \<Rightarrow> d)\<rparr>"
  show ?thesis
  proof (cases "insertTable ?row db")
    case n1: None
    with None assms show ?thesis by (simp add: createTable_def)
  next
    case s1: (Some db1)
    from s1 assms have u1: "uniqueTables db1" by (rule insertTable_unique)
    show ?thesis
    proof (cases "insertColumn (idColumnRow columnId tableId) db1")
      case n2: None
      with None s1 u1 show ?thesis by (simp add: createTable_def)
    next
      case s2: (Some db2)
      then have "db_tables db2 = db_tables db1" by (rule insertColumn_tables)
      then have "uniqueTables db2 = uniqueTables db1" by (rule uniqueTables_cong)
      with None s1 s2 u1 show ?thesis by (simp add: createTable_def)
    qed
  qed
qed

lemma createTableRoute_unique:
  assumes "uniqueTables db"
  shows "uniqueTables (snd (createTableRoute acc tableId columnId schemaId req db))"
  using assms
  by (simp add: createTableRoute_def createTable_unique
      split: option.splits middleware_result.splits)

lemma rename_keys_distinct:
  fixes ts :: "table_row list"
  assumes "distinct (map t_id ts)"
    and "distinct (map (\<lambda>t. (t_schema_id t, t_name t)) ts)"
    and "\<forall>t \<in> set ts. t_id t \<noteq> tid \<and> t_schema_id t = sid \<longrightarrow> t_name t \<noteq> n"
    and "\<forall>t \<in> set ts. t_id t = tid \<longrightarrow> t_schema_id t = sid"
  shows "distinct (map (\<lambda>t. (t_schema_id t, t_name t))
           (map (\<lambda>t. if t_id t = tid then t\<lparr>t_name := n\<rparr> else t) ts))"
proof -
  define upd where "upd = (\<lambda>t::table_row. if t_id t = tid then t\<lparr>t_name := n\<rparr> else t)"
  define key where "key = (\<lambda>t::table_row. (t_schema_id t, t_name t))"
  have upd_tid: "key (upd t) = (t_schema_id t, n)" if "t_id t = tid" for t
    using that by (simp add: upd_def key_def)
  have upd_other: "key (upd t) = (t_schema_id t, t_name t)" if "t_id t \<noteq> tid" for t
    using that by (simp add: upd_def key_def)
  have "distinct (map key (map upd ts))"
    using assms
  proof (induction ts)
    case Nil
    show ?case by simp
  next
    case (Cons h rest)
    have ih: "distinct (map key (map upd rest))"
      using Cons by simp
    have ne: "key (upd h) \<noteq> key (upd r)" if r: "r \<in> set rest" for r
    proof (cases "t_id h = tid")
      case True
      from r have "t_id r \<in> t_id ` set rest" by (rule imageI)
      moreover from Cons.prems(1) have "t_id h \<notin> t_id ` set rest" by simp
      ultimately have rt: "t_id r \<noteq> tid" using True by metis
      from True Cons.prems(4) have hs: "t_schema_id h = sid" by simp
      from rt Cons.prems(3) r have "t_schema_id r = sid \<longrightarrow> t_name r \<noteq> n" by simp
      with hs show ?thesis
        by (auto simp add: upd_tid [OF True] upd_other [OF rt])
    next
      case False
      show ?thesis
      proof (cases "t_id r = tid")
        case True
        with Cons.prems(4) r have rs: "t_schema_id r = sid" by simp
        from False Cons.prems(3) have "t_schema_id h = sid \<longrightarrow> t_name h \<noteq> n" by simp
        with rs show ?thesis
          by (auto simp add: upd_tid [OF True] upd_other [OF False])
      next
        case r_other: False
        let ?k = "\<lambda>t::table_row. (t_schema_id t, t_name t)"
        from r have "?k r \<in> ?k ` set rest" by (rule imageI)
        moreover from Cons.prems(2) have "?k h \<notin> ?k ` set rest" by simp
        ultimately have "?k h \<noteq> ?k r" by metis
        then show ?thesis by (simp add: upd_other [OF False] upd_other [OF r_other])
      qed
    qed
    have "key (upd h) \<notin> set (map key (map upd rest))"
    proof
      assume "key (upd h) \<in> set (map key (map upd rest))"
      then obtain r where "r \<in> set rest" "key (upd h) = key (upd r)"
        by (auto simp: image_iff)
      with ne show False by blast
    qed
    with ih show ?case by simp
  qed
  then show ?thesis by (simp add: upd_def key_def)
qed

lemma renameTable_unique:
  assumes "uniqueTables db"
  shows "uniqueTables (snd (renameTable schemaId tableId name db))"
proof (cases "find (\<lambda>t. t_id t = tableId \<and> t_schema_id t = schemaId) (db_tables db)")
  case None
  with assms show ?thesis by (simp add: renameTable_def)
next
  case (Some row)
  then obtain i where i: "i < length (db_tables db)" "db_tables db ! i = row"
    and row: "t_id row = tableId" "t_schema_id row = schemaId"
    by (auto simp: find_Some_iff)
  then have mem: "row \<in> set (db_tables db)" by auto
  show ?thesis
  proof (cases "list_ex (\<lambda>t. t_id t \<noteq> tableId \<and> t_schema_id t = schemaId \<and> t_name t = name)
                  (db_tables db)")
    case True
    with Some assms show ?thesis by (simp add: renameTable_def)
  next
    case False
    let ?ts = "db_tables db"
    let ?upd = "\<lambda>t::table_row. if t_id t = tableId then t\<lparr>t_name := name\<rparr> else t"
    from assms have d1: "distinct (map t_id ?ts)"
      and d2: "distinct (map (\<lambda>t. (t_schema_id t, t_name t)) ?ts)"
      by (simp_all add: uniqueTables_def tableKeys_def)
    from False have a3: "\<forall>t \<in> set ?ts. t_id t \<noteq> tableId \<and> t_schema_id t = schemaId \<longrightarrow> t_name t \<noteq> name"
      by (auto simp: list_ex_iff)
    have a4: "\<forall>t \<in> set ?ts. t_id t = tableId \<longrightarrow> t_schema_id t = schemaId"
    proof (intro ballI impI)
      fix t assume "t \<in> set ?ts" "t_id t = tableId"
      with d1 mem row(1) have "t = row" by (auto simp: distinct_map inj_on_def)
      with row(2) show "t_schema_id t = schemaId" by simp
    qed
    have ids: "map t_id (map ?upd ?ts) = map t_id ?ts" by (induction ?ts) auto
    have keys: "distinct (map (\<lambda>t. (t_schema_id t, t_name t)) (map ?upd ?ts))"
      using d1 d2 a3 a4 by (rule rename_keys_distinct)
    have "snd (renameTable schemaId tableId name db) = db\<lparr>db_tables := map ?upd ?ts\<rparr>"
      using Some False by (simp add: renameTable_def)
    moreover have "distinct (map t_id (map ?upd ?ts))"
      unfolding ids by (rule d1)
    then have "uniqueTables (db\<lparr>db_tables := map ?upd ?ts\<rparr>)"
      unfolding uniqueTables_def tableKeys_def using keys by simp
    ultimately show ?thesis by simp
  qed
qed

lemma renameTableRoute_unique:
  assumes "uniqueTables db"
  shows "uniqueTables (snd (renameTableRoute acc schemaId tableId name db))"
  using assms by (simp add: renameTableRoute_def renameTable_unique split: option.splits)

lemma deleteTableRow_unique:
  assumes "uniqueTables db"
  shows "uniqueTables (snd (deleteTableRow schemaId tableId db))"
  using assms
  by (auto simp: deleteTableRow_def deleteTableCascade_def uniqueTables_def tableKeys_def
      Let_def distinct_map_filter split: option.splits)

lemma deleteTableRoute_unique:
  assumes "uniqueTables db"
  shows "uniqueTables (snd (deleteTableRoute acc schemaId tableId db))"
  using assms by (simp add: deleteTableRoute_def deleteTableRow_unique split: option.splits)

lemma handle_unique: "uniqueTables db \<Longrightarrow> uniqueTables (snd (handle request db))"
  by (cases request)
    (simp_all add: createTableRoute_unique renameTableRoute_unique deleteTableRoute_unique)

lemma run_unique: "uniqueTables db \<Longrightarrow> uniqueTables (run requests db)"
  unfolding run_def
  by (induction requests arbitrary: db) (simp_all add: handle_unique)

lemma createTable_duplicate:
  assumes "(schemaId, name) \<in> set (tableKeys db)"
  shows "createTable tableId columnId schemaId name description db =
     (Rejected 409 ''DUPLICATE_RESOURCE'' ''Table with this name already exists in schema'', db)"
proof -
  from assms have "\<exists>t \<in> set (db_tables db). t_schema_id t = schemaId \<and> t_name t = name"
    by (auto simp: tableKeys_def)
  then have "find (\<lambda>t. t_schema_id t = schemaId \<and> t_name t = name) (db_tables db) \<noteq> None"
    by (auto simp: find_None_iff)
  then show ?thesis by (auto simp: createTable_def)
qed

lemma defaults_tableSchema:
  "tb_name (defaults tableSchema b) = tb_name b"
  "tb_description (defaults tableSchema b) = tb_description b"
  by (simp_all add: tableSchema_def)

lemma validate_table:
  "validate joiValidate tableSchemas ''table'' ''body'' req =
     (if defects tableSchema (body req) \<noteq> []
      then Respond 400 ''VALIDATION_ERROR'' ''Validation failed''
             (validationErrors (defects tableSchema (body req)))
      else Next (req\<lparr>body := defaults tableSchema (body req)\<rparr>))"
proof -
  have "tableSchemas ''table'' = Some tableSchema" by (simp add: tableSchemas_def)
  from validate_joiValidate
         [where schemas = tableSchemas and schemaName = "''table''" and sch = tableSchema
            and source = "''body''" and req = req, OF this]
  show ?thesis by simp
qed

lemma createTableRoute_granted:
  assumes "authenticate acc = None" "isGuid schemaId" "authorizeSchemaAccess acc = None"
  shows "createTableRoute acc tableId columnId schemaId req db =
     (if defects tableSchema (body req) \<noteq> []
      then (RejectedDetails 400 ''VALIDATION_ERROR'' ''Validation failed''
              (validationErrors (defects tableSchema (body req))), db)
      else (case tb_name (body req) of
              None \<Rightarrow> (Rejected 500 ''INTERNAL_SERVER_ERROR'' ''Failed to create table'', db)
            | Some name \<Rightarrow>
                createTable tableId columnId schemaId name (tb_description (body req)) db))"
  using assms
  by (simp add: createTableRoute_def validateUUID_def validate_table defaults_tableSchema
      split: option.splits)

text \<open>
  Claim C9, as stated, fails: after a table \<open>Customer\<close>, a table \<open>customer\<close> is created in
  the same schema by a request that passes every middleware of the route (the ids are
  uuids, and both names match the pattern for names), and the database holds both.
\<close>

theorem table_names_case_counterexample:
  "isGuid shopId \<and>
   defects tableSchema (body (tableBody ''Customer'')) = [] \<and>
   defects tableSchema (body (tableBody ''customer'')) = [] \<and>
   sameIgnoringCase ''Customer'' ''customer'' \<and>
   fst (handle createCustomer (emptyDatabase [shopId]))
     = Created ''0a1b2c3d-0001-4000-8000-000000000001'' \<and>
   fst (handle createcustomer (run [createCustomer] (emptyDatabase [shopId])))
     = Created ''0a1b2c3d-0002-4000-8000-000000000002'' \<and>
   tableKeys (run [createCustomer, createcustomer] (emptyDatabase [shopId]))
     = [(shopId, ''Customer''), (shopId, ''customer'')]"
  by code_simp

text \<open>
  Claim C9, amended. Within one schema, table names are unique by exact comparison. A
  request to create a table that passes the middleware of the route (\<open>authenticate\<close>, the
  uuid of the schema, \<open>authorizeSchemaAccess\<close> and the schema \<open>table\<close> of the body) and
  whose name equals the name of a table of the schema is rejected with 409
  \<open>DUPLICATE_RESOURCE\<close> and changes nothing; a schema id that is no uuid is answered with
  400 \<open>INVALID_UUID\<close>, and a body with defects with 400 and its issues, before the names
  are compared. No database reached by creating, renaming and deleting tables holds two
  tables of one schema with the same name. Names that differ in case are different names.
\<close>

theorem table_names_unique_exactly:
  "(authenticate acc = None \<and> isGuid schemaId \<and> authorizeSchemaAccess acc = None \<and>
    defects tableSchema (body req) = [] \<and> tb_name (body req) = Some name \<and>
    (schemaId, name) \<in> set (tableKeys db) \<longrightarrow>
      createTableRoute acc tableId columnId schemaId req db =
        (Rejected 409 ''DUPLICATE_RESOURCE'' ''Table with this name already exists in schema'',
         db)) \<and>
   (authenticate acc = None \<and> \<not> isGuid schemaId \<longrightarrow>
      createTableRoute acc tableId columnId schemaId req db =
        (Rejected 400 ''INVALID_UUID'' ''Invalid schemaId format'', db)) \<and>
   (authenticate acc = None \<and> isGuid schemaId \<and> authorizeSchemaAccess acc = None \<and>
    defects tableSchema (body req) \<noteq> [] \<longrightarrow>
      createTableRoute acc tableId columnId schemaId req db =
        (RejectedDetails 400 ''VALIDATION_ERROR'' ''Validation failed''
           (validationErrors (defects tableSchema (body req))), db)) \<and>
   (uniqueTables db \<longrightarrow> uniqueTables (run requests db)) \<and>
   distinct (tableKeys (run requests (emptyDatabase schemaIds)))"
proof (intro conjI impI)
  assume a: "authenticate acc = None \<and> isGuid schemaId \<and> authorizeSchemaAccess acc = None \<and>
    defects tableSchema (body req) = [] \<and> tb_name (body req) = Some name \<and>
    (schemaId, name) \<in> set (tableKeys db)"
  then have "createTableRoute acc tableId columnId schemaId req db =
      createTable tableId columnId schemaId name (tb_description (body req)) db"
    by (simp add: createTableRoute_granted)
  with a show "createTableRoute acc tableId columnId schemaId req db =
        (Rejected 409 ''DUPLICATE_RESOURCE'' ''Table with this name already exists in schema'',
         db)"
    by (simp add: createTable_duplicate)
next
  assume "authenticate acc = None \<and> \<not> isGuid schemaId"
  then show "createTableRoute acc tableId columnId schemaId req db =
        (Rejected 400 ''INVALID_UUID'' ''Invalid schemaId format'', db)"
    by (simp add: createTableRoute_def validateUUID_def)
next
  assume "authenticate acc = None \<and> isGuid schemaId \<and> authorizeSchemaAccess acc = None \<and>
    defects tableSchema (body req) \<noteq> []"
  then show "createTableRoute acc tableId columnId schemaId req db =
        (RejectedDetails 400 ''VALIDATION_ERROR'' ''Validation failed''
           (validationErrors (defects tableSchema (body req))), db)"
    by (simp add: createTableRoute_granted)
next
  assume "uniqueTables db"
  then show "uniqueTables (run requests db)" by (rule run_unique)
next
  have "uniqueTables (emptyDatabase schemaIds)"
    by (simp add: uniqueTables_def emptyDatabase_def tableKeys_def)
  then have "uniqueTables (run requests (emptyDatabase schemaIds))" by (rule run_unique)
  then show "distinct (tableKeys (run requests (emptyDatabase schemaIds)))"
    by (simp add: uniqueTables_def)
qed

theorem table_names_unique_exactly_witness:
  "authenticate granted = None \<and> isGuid shopId \<and> authorizeSchemaAccess granted = None \<and>
   defects tableSchema (body (tableBody ''Customer'')) = [] \<and>
   tb_name (body (tableBody ''Customer'')) = Some ''Customer'' \<and>
   (shopId, ''Customer'') \<in> set (tableKeys (run [createCustomer] (emptyDatabase [shopId]))) \<and>
   createTableRoute granted ''0a1b2c3d-0003-4000-8000-000000000003''
       ''0a1b2c3d-0003-4000-8000-0000000000c3'' shopId (tableBody ''Customer'')
       (run [createCustomer] (emptyDatabase [shopId]))
     = (Rejected 409 ''DUPLICATE_RESOURCE'' ''Table with this name already exists in schema'',
        run [createCustomer] (emptyDatabase [shopId])) \<and>
   \<not> isGuid ''5f0c'' \<and>
   createTableRoute granted ''0a1b2c3d-0003-4000-8000-000000000003''
       ''0a1b2c3d-0003-4000-8000-0000000000c3'' ''5f0c'' (tableBody ''Customer'')
       (run [createCustomer] (emptyDatabase [shopId]))
     = (Rejected 400 ''INVALID_UUID'' ''Invalid schemaId format'',
        run [createCustomer] (emptyDatabase [shopId])) \<and>
   defects tableSchema (body badTableRequest) \<noteq> [] \<and>
   fst (createTableRoute granted ''0a1b2c3d-0003-4000-8000-000000000003''
          ''0a1b2c3d-0003-4000-8000-0000000000c3'' shopId badTableRequest
          (run [createCustomer] (emptyDatabase [shopId])))
     = RejectedDetails 400 ''VALIDATION_ERROR'' ''Validation failed''
         (validationErrors (defects tableSchema (body badTableRequest))) \<and>
   uniqueTables (run [createCustomer] (emptyDatabase [shopId])) \<and>
   uniqueTables (run [createcustomer,
                      RenameTableRequest granted shopId ''0a1b2c3d-0002-4000-8000-000000000002''
                        ''Customer'']
                   (run [createCustomer] (emptyDatabase [shopId])))"
proof -
  let ?db = "run [createCustomer] (emptyDatabase [shopId])"
  let ?tid = "''0a1b2c3d-0003-4000-8000-000000000003''"
  let ?cid = "''0a1b2c3d-0003-4000-8000-0000000000c3''"
  have g: "authenticate granted = None" "authorizeSchemaAccess granted = None"
    by (simp_all add: granted_def)
  have u: "isGuid shopId" by code_simp
  have nu: "\<not> isGuid ''5f0c''" by code_simp
  have d: "defects tableSchema (body (tableBody ''Customer'')) = []" by code_simp
  have n: "tb_name (body (tableBody ''Customer'')) = Some ''Customer''"
    by (simp add: tableBody_def)
  have k: "(shopId, ''Customer'') \<in> set (tableKeys ?db)" by code_simp
  have bad: "defects tableSchema (body badTableRequest) \<noteq> []" by code_simp
  have uq: "uniqueTables ?db" by code_simp
  note t1 = table_names_unique_exactly
      [where acc = granted and schemaId = shopId and req = "tableBody ''Customer''"
         and name = "''Customer''" and db = ?db and tableId = ?tid and columnId = ?cid
         and requests = "[createcustomer,
                      RenameTableRequest granted shopId ''0a1b2c3d-0002-4000-8000-000000000002''
                        ''Customer'']"]
  note t2 = table_names_unique_exactly
      [where acc = granted and schemaId = "''5f0c''" and req = "tableBody ''Customer''"
         and db = ?db and tableId = ?tid and columnId = ?cid]
  note t3 = table_names_unique_exactly
      [where acc = granted and schemaId = shopId and req = badTableRequest
         and db = ?db and tableId = ?tid and columnId = ?cid]
  from t1 g u d n k have r1: "createTableRoute granted ?tid ?cid shopId (tableBody ''Customer'') ?db
     = (Rejected 409 ''DUPLICATE_RESOURCE'' ''Table with this name already exists in schema'', ?db)"
    by blast
  from t2 g nu have r2: "createTableRoute granted ?tid ?cid ''5f0c'' (tableBody ''Customer'') ?db
     = (Rejected 400 ''INVALID_UUID'' ''Invalid schemaId format'', ?db)"
    by blast
  from t3 g u bad have "createTableRoute granted ?tid ?cid shopId badTableRequest ?db
     = (RejectedDetails 400 ''VALIDATION_ERROR'' ''Validation failed''
           (validationErrors (defects tableSchema (body badTableRequest))), ?db)"
    by blast
  then have r3: "fst (createTableRoute granted ?tid ?cid shopId badTableRequest ?db)
     = RejectedDetails 400 ''VALIDATION_ERROR'' ''Validation failed''
         (validationErrors (defects tableSchema (body badTableRequest)))"
    by simp
  from t1 uq have r4: "uniqueTables (run [createcustomer,
                      RenameTableRequest granted shopId ''0a1b2c3d-0002-4000-8000-000000000002''
                        ''Customer''] ?db)"
    by blast
  from g u d n k r1 nu r2 bad r3 uq r4 show ?thesis by blast
qed

section \<open>Deleting a table\<close>

text \<open>
  The store and the database name the tables of a relationship by id, and there the
  deletion of a table leaves no relationship behind that refers to it: a state in which
  every relationship refers to tables that exist stays such a state.
\<close>

lemma removeTable_schema:
  assumes "st_currentSchema state = Some s"
  shows "st_currentSchema (removeTable tableId state) =
     Some (s\<lparr>ss_tables := filter (\<lambda>t. st_id t \<noteq> tableId) (ss_tables s),
             ss_relationships :=
               filter (\<lambda>r. sourceTableId r \<noteq> tableId \<and> targetTableId r \<noteq> tableId)
                 (ss_relationships s)\<rparr>)"
  using assms by (simp add: removeTable_def)

lemma removeTable_dangling:
  assumes "st_currentSchema state = Some s" "store_dangling s = []"
  shows "\<exists>s'. st_currentSchema (removeTable tableId state) = Some s' \<and>
           tableId \<notin> st_id ` set (ss_tables s') \<and>
           (\<forall>r \<in> set (ss_relationships s').
              sourceTableId r \<noteq> tableId \<and> targetTableId r \<noteq> tableId) \<and>
           store_dangling s' = []"
proof -
  let ?s = "s\<lparr>ss_tables := filter (\<lambda>t. st_id t \<noteq> tableId) (ss_tables s),
             ss_relationships :=
               filter (\<lambda>r. sourceTableId r \<noteq> tableId \<and> targetTableId r \<noteq> tableId)
                 (ss_relationships s)\<rparr>"
  have "\<And>r. r \<in> set (ss_relationships s) \<Longrightarrow>
      sourceTableId r \<in> st_id ` set (ss_tables s) \<and>
      targetTableId r \<in> st_id ` set (ss_tables s)"
    using assms(2) by (auto simp: store_dangling_def filter_empty_conv)
  then have "store_dangling ?s = []"
    unfolding store_dangling_def filter_empty_conv
    by (simp add: image_iff) metis
  moreover have "tableId \<notin> st_id ` set (ss_tables ?s)" by auto
  moreover have "\<forall>r \<in> set (ss_relationships ?s).
      sourceTableId r \<noteq> tableId \<and> targetTableId r \<noteq> tableId" by simp
  ultimately show ?thesis
    using removeTable_schema [OF assms(1), of tableId] by blast
qed

lemma deleteTableCascade_dangling:
  assumes "db_dangling db = []"
  shows "tableId \<notin> t_id ` set (db_tables (deleteTableCascade tableId db)) \<and>
         (\<forall>r \<in> set (db_relationships (deleteTableCascade tableId db)).
            source_table_id r \<noteq> tableId \<and> target_table_id r \<noteq> tableId) \<and>
         db_dangling (deleteTableCascade tableId db) = []"
proof -
  have "\<And>r. r \<in> set (db_relationships db) \<Longrightarrow>
      source_table_id r \<in> t_id ` set (db_tables db) \<and>
      target_table_id r \<in> t_id ` set (db_tables db)"
    using assms by (auto simp: db_dangling_def filter_empty_conv)
  then have "db_dangling (deleteTableCascade tableId db) = []"
    unfolding db_dangling_def filter_empty_conv deleteTableCascade_def Let_def
    by (simp add: image_iff) metis
  moreover have "tableId \<notin> t_id ` set (db_tables (deleteTableCascade tableId db))"
    by (auto simp: deleteTableCascade_def Let_def)
  moreover have "\<forall>r \<in> set (db_relationships (deleteTableCascade tableId db)).
      source_table_id r \<noteq> tableId \<and> target_table_id r \<noteq> tableId"
    by (simp add: deleteTableCascade_def Let_def)
  ultimately show ?thesis by blast
qed

lemma deleteTableRoute_dangling:
  assumes "db_dangling db = []"
  shows "db_dangling (snd (deleteTableRoute acc schemaId tableId db)) = []"
  using assms
  by (simp add: deleteTableRoute_def deleteTableRow_def deleteTableCascade_dangling
      split: option.splits)

text \<open>
  The designer too keeps such a state as long as the id of every table is its name, as
  in the sample schema.
\<close>

lemma currentSchema_deleteTable:
  "currentSchema (deleteTable True tableId d) =
     (currentSchema d)
       \<lparr>tables := filter (\<lambda>t. table_id t \<noteq> tableId) (tables (currentSchema d)),
        relationships :=
          filter (\<lambda>r. sourceTable r \<noteq> tableId \<and> targetTable r \<noteq> tableId)
            (relationships (currentSchema d))\<rparr>"
  by (simp add: deleteTable_def generateSQL_def)

lemma deleteTable_dangling_when_ids_are_names:
  assumes "\<forall>t \<in> set (tables (currentSchema d)). table_id t = table_name t"
    and "designer_dangling (currentSchema d) = []"
  shows "designer_dangling (currentSchema (deleteTable True tableId d)) = []"
proof -
  have refs: "\<And>r. r \<in> set (relationships (currentSchema d)) \<Longrightarrow>
      sourceTable r \<in> table_name ` set (tables (currentSchema d)) \<and>
      targetTable r \<in> table_name ` set (tables (currentSchema d))"
    using assms(2) by (auto simp: designer_dangling_def filter_empty_conv)
  have keep: "x \<in> table_name ` set (filter (\<lambda>t. table_id t \<noteq> tableId) (tables (currentSchema d)))"
    if "x \<in> table_name ` set (tables (currentSchema d))" "x \<noteq> tableId" for x
  proof -
    from that(1) obtain t where t: "t \<in> set (tables (currentSchema d))" "x = table_name t"
      by auto
    with assms(1) that(2) have "table_id t \<noteq> tableId" by auto
    with t show ?thesis by auto
  qed
  show ?thesis
    unfolding currentSchema_deleteTable designer_dangling_def filter_empty_conv
    using refs keep by auto
qed

text \<open>
  Claim C10 does not hold of \<open>SchemaDesigner.deleteTable\<close>. The class refers to the tables
  of a relationship by name, and \<open>deleteTable\<close> compares these names with the id of the
  deleted table. In the example every relationship refers to tables that exist; the
  table with the id \<open>table_1700000000000\<close> is the table named \<open>users\<close>. After it is deleted
  the relationship of \<open>orders\<close> to \<open>users\<close> is still there, no table is named \<open>users\<close>, and
  the generated SQL refers to the table \<open>users\<close> that it does not create.
\<close>

theorem deleteTable_keeps_relationship_of_deleted_table:
  "map (\<lambda>t. (table_id t, table_name t)) (tables (currentSchema renamedDesigner))
     = [(''users'', ''customers''), (''orders'', ''orders''),
        (''table_1700000000000'', ''users'')] \<and>
   relationships (currentSchema renamedDesigner) = [userOrders] \<and>
   sourceTable userOrders = ''users'' \<and> targetTable userOrders = ''orders'' \<and>
   designer_dangling (currentSchema renamedDesigner) = [] \<and>
   map table_name (tables (currentSchema (deleteTable True ''table_1700000000000'' renamedDesigner)))
     = [''customers'', ''orders''] \<and>
   relationships (currentSchema (deleteTable True ''table_1700000000000'' renamedDesigner))
     = [userOrders] \<and>
   designer_dangling (currentSchema (deleteTable True ''table_1700000000000'' renamedDesigner))
     = [userOrders] \<and>
   sqlOutput (deleteTable True ''table_1700000000000'' renamedDesigner) =
     ''CREATE TABLE customers (\<newline>  id INTEGER PRIMARY KEY,\<newline>  email VARCHAR(255) NOT NULL\<newline>);\<newline>\<newline>CREATE TABLE orders (\<newline>  id INTEGER PRIMARY KEY,\<newline>  user_id INTEGER NOT NULL\<newline>);\<newline>\<newline>ALTER TABLE orders ADD CONSTRAINT fk_orders_users FOREIGN KEY (user_id) REFERENCES users(id);\<newline>\<newline>''"
  by code_simp

end
